theory Spec2Isabelle
  imports Main "HOL-Library.Word"
begin

section \<open>The connection table of network.c\<close>

text \<open>
  A shallow embedding of \<^verbatim>\<open>src/network.c\<close>. The two globals of the file
  (\<^verbatim>\<open>g_conn_count\<close> and \<^verbatim>\<open>g_conns\<close>) are fields of a record that every
  function takes and returns. The calls into the operating system and into the logger are
  not computed: each function takes the values the system calls return as an argument and
  appends one event per external call to a trace, so that "closes the descriptor" and
  "logs nothing" are statements about the trace. A failed \<^verbatim>\<open>assert\<close>, a dereference
  of the NULL pointer that \<^verbatim>\<open>get_network_conn\<close> returns and an access past the end
  of \<^verbatim>\<open>g_conns\<close> end the run with a fault instead of a result.
\<close>

subsection \<open>C types and constants\<close>

type_synonym c_int = "32 word"
type_synonym in_port_t = "16 word"
type_synonym in_addr_t = "32 word"
type_synonym socklen_t = "32 word"
type_synonym ssize_t = "64 word"
type_synonym size_t = "64 word"
type_synonym byte = "8 word"

definition MAX_NETWORK_CONNECTIONS :: nat where
  "MAX_NETWORK_CONNECTIONS = 32"

definition CONNECTION_TIMEOUT_SEC :: nat where
  "CONNECTION_TIMEOUT_SEC = 3"

text \<open>
  Constants of the system headers, with their Linux values. \<^verbatim>\<open>htonl(INADDR_ANY)\<close>
  is 0 in every byte order, and \<^verbatim>\<open>sizeof(struct sockaddr_in)\<close> is 16.
\<close>

definition AF_INET :: "16 word" where
  "AF_INET = 2"

definition htonl_INADDR_ANY :: in_addr_t where
  "htonl_INADDR_ANY = 0"

definition sizeof_sockaddr_in :: socklen_t where
  "sizeof_sockaddr_in = 16"

definition EAGAIN :: c_int where
  "EAGAIN = 11"

definition EWOULDBLOCK :: c_int where
  "EWOULDBLOCK = 11"

subsection \<open>The connection record and the globals\<close>

datatype network_conn_state =
    NETWORK_CONN_STATE_UNITIALIZED
  | NETWORK_CONN_STATE_DISCONNECTED
  | NETWORK_CONN_STATE_CONNECTED

record sockaddr_in =
  sin_family :: "16 word"
  sin_port :: in_port_t
  sin_addr :: in_addr_t

record network_conn =
  fd :: c_int
  server :: bool
  state :: network_conn_state
  sin_me :: sockaddr_in
  sin_oth :: sockaddr_in
  slen :: socklen_t

subsection \<open>External calls: what they return and the trace they leave\<close>

datatype sock_type = SOCK_DGRAM | SOCK_STREAM

datatype sockopt = SO_RCVTIMEO nat | SO_SNDTIMEO nat | SO_REUSEADDR c_int

text \<open>
  The label that \<^verbatim>\<open>snprintf\<close> formats for \<^verbatim>\<open>hexdump\<close> is kept as its
  arguments: the byte count, the requested length and the port field that is handed to
  \<^verbatim>\<open>ntohs\<close>.
\<close>

datatype hexdump_line =
    Sent_line ssize_t size_t in_port_t
  | Received_line ssize_t in_port_t

datatype event =
    Socket sock_type
  | Setsockopt c_int sockopt
  | Bind c_int sockaddr_in
  | Close c_int
  | Connect c_int sockaddr_in socklen_t
  | Sendto c_int "byte list" size_t sockaddr_in socklen_t
  | Send c_int "byte list" size_t
  | Recvfrom c_int size_t
  | Recv c_int size_t
  | Perror string
  | Hexdump hexdump_line "byte list" size_t

record world =
  g_conn_count :: c_int
  g_conns :: "network_conn list"
  os_trace :: "event list"

text \<open>What the system calls of an init call return.\<close>

record init_os =
  socket_ret :: c_int
  setsockopt_recv_ret :: c_int
  setsockopt_send_ret :: c_int
  setsockopt_reuse_ret :: c_int
  bind_ret :: c_int

text \<open>
  What \<^verbatim>\<open>recvfrom\<close> or \<^verbatim>\<open>recv\<close> returns: the byte count, \<^verbatim>\<open>errno\<close>
  after the call, the sender's address (\<^verbatim>\<open>recvfrom\<close> only) and the bytes put
  into the caller's buffer.
\<close>

record recv_os =
  recv_ret :: ssize_t
  recv_errno :: c_int
  recv_from :: sockaddr_in
  recv_data :: "byte list"

text \<open>
  How a call ends when it does not return: \<open>AssertFailed\<close> is a failed \<^verbatim>\<open>assert\<close>
  (the process aborts; asserts are compiled in), \<open>NullDeref\<close> is a read through the NULL
  pointer (the process is killed by the memory fault), \<open>OutOfBounds\<close> is an access to
  \<^verbatim>\<open>g_conns[i]\<close> with \<open>i\<close> outside the table, which C leaves undefined: nothing stops
  the call, it reads and writes whatever lies next to the table.
\<close>

datatype fault = AssertFailed | NullDeref | OutOfBounds

type_synonym result = "fault + (c_int \<times> world)"

definition emit :: "event \<Rightarrow> world \<Rightarrow> world" where
  "emit e w = w\<lparr>os_trace := os_trace w @ [e]\<rparr>"

definition perror_if :: "bool \<Rightarrow> string \<Rightarrow> world \<Rightarrow> world" where
  "perror_if b msg w = (if b then emit (Perror msg) w else w)"

definition conn_at :: "nat \<Rightarrow> world \<Rightarrow> network_conn" where
  "conn_at i w = g_conns w ! i"

definition conn_upd :: "nat \<Rightarrow> (network_conn \<Rightarrow> network_conn) \<Rightarrow> world \<Rightarrow> world" where
  "conn_upd i f w = w\<lparr>g_conns := (g_conns w)[i := f (g_conns w ! i)]\<rparr>"

text \<open>
  The table at program start: static storage is zeroed, so every record is in state
  \<^verbatim>\<open>NETWORK_CONN_STATE_UNITIALIZED\<close> (the enumerator 0) and the counter is 0.
\<close>

definition zero_sockaddr :: sockaddr_in where
  "zero_sockaddr = \<lparr>sin_family = 0, sin_port = 0, sin_addr = 0\<rparr>"

definition zero_conn :: network_conn where
  "zero_conn = \<lparr>fd = 0, server = False, state = NETWORK_CONN_STATE_UNITIALIZED,
     sin_me = zero_sockaddr, sin_oth = zero_sockaddr, slen = 0\<rparr>"

definition startup :: world where
  "startup = \<lparr>g_conn_count = 0, g_conns = replicate MAX_NETWORK_CONNECTIONS zero_conn,
     os_trace = []\<rparr>"

subsection \<open>get_network_conn\<close>

text \<open>
  The pointer into \<^verbatim>\<open>g_conns\<close> is the index of the record; \<open>None\<close> is NULL.
  The cast \<^verbatim>\<open>(unsigned) conn_id\<close> reads the same 32 bits as an unsigned number.
\<close>

definition get_network_conn :: "c_int \<Rightarrow> nat option" where
  "get_network_conn conn_id =
     (if unat conn_id < MAX_NETWORK_CONNECTIONS then Some (unat conn_id) else None)"

subsection \<open>The datagram transport\<close>

definition network_udp_init_conn :: "in_port_t \<Rightarrow> bool \<Rightarrow> init_os \<Rightarrow> world \<Rightarrow> result" where
  "network_udp_init_conn port srv os w0 =
     (let conn_id = g_conn_count w0;
          w1 = w0\<lparr>g_conn_count := conn_id + 1\<rparr>;
          i = unat conn_id
      in if \<not> i < MAX_NETWORK_CONNECTIONS then Inl OutOfBounds
         else if state (conn_at i w1) \<noteq> NETWORK_CONN_STATE_UNITIALIZED then Inl AssertFailed
         else
           let w2 = conn_upd i (\<lambda>c. c\<lparr>fd := socket_ret os\<rparr>) (emit (Socket SOCK_DGRAM) w1)
           in if fd (conn_at i w2) = - 1 then Inr (- 1, emit (Perror ''socket'') w2)
              else
                let w3 = conn_upd i (\<lambda>c. c\<lparr>server := srv\<rparr>) w2;
                    w4 = perror_if (setsockopt_recv_ret os \<noteq> 0) ''setsockopt recv''
                           (emit (Setsockopt (fd (conn_at i w3))
                              (SO_RCVTIMEO CONNECTION_TIMEOUT_SEC)) w3);
                    w5 = perror_if (setsockopt_send_ret os \<noteq> 0) ''setsockopt send''
                           (emit (Setsockopt (fd (conn_at i w4))
                              (SO_SNDTIMEO CONNECTION_TIMEOUT_SEC)) w4);
                    w6 = conn_upd i (\<lambda>c. c\<lparr>sin_me := (sin_me c)\<lparr>sin_family := AF_INET,
                           sin_addr := htonl_INADDR_ANY, sin_port := port\<rparr>\<rparr>) w5;
                    w7 = (if 0 < port
                          then emit (Bind (fd (conn_at i w6)) (sin_me (conn_at i w6))) w6
                          else w6)
                in if 0 < port \<and> bind_ret os = - 1
                   then Inr (- 1, emit (Close (fd (conn_at i w7))) (emit (Perror ''bind'') w7))
                   else Inr (conn_id,
                          conn_upd i (\<lambda>c. c\<lparr>state := NETWORK_CONN_STATE_DISCONNECTED\<rparr>) w7))"

definition network_udp_connect :: "c_int \<Rightarrow> in_addr_t \<Rightarrow> in_port_t \<Rightarrow> world \<Rightarrow> result" where
  "network_udp_connect conn_id addr port w =
     (case get_network_conn conn_id of
        None \<Rightarrow> Inl NullDeref
      | Some i \<Rightarrow>
          if state (conn_at i w) \<noteq> NETWORK_CONN_STATE_DISCONNECTED then Inl AssertFailed
          else Inr (0, conn_upd i (\<lambda>c. c\<lparr>sin_oth := (sin_oth c)\<lparr>sin_addr := addr,
                         sin_family := AF_INET, sin_port := port\<rparr>,
                       slen := sizeof_sockaddr_in,
                       state := NETWORK_CONN_STATE_CONNECTED\<rparr>) w))"

text \<open>
  \<open>sendto_ret\<close> is what \<^verbatim>\<open>sendto\<close> returns; the function returns it cast to
  \<^verbatim>\<open>int\<close>.
\<close>

definition network_udp_send :: "c_int \<Rightarrow> byte list \<Rightarrow> size_t \<Rightarrow> ssize_t \<Rightarrow> world \<Rightarrow> result" where
  "network_udp_send conn_id buf len sendto_ret w =
     (case get_network_conn conn_id of
        None \<Rightarrow> Inl NullDeref
      | Some i \<Rightarrow>
          if state (conn_at i w) \<noteq> NETWORK_CONN_STATE_CONNECTED then Inl AssertFailed
          else
            let c = conn_at i w;
                w1 = emit (Sendto (fd c) buf len (sin_oth c) (slen c)) w;
                sent_bytes = sendto_ret;
                w2 = perror_if (sint sent_bytes < 0) ''sendto'' w1;
                w3 = emit (Hexdump (Sent_line sent_bytes len (sin_port (sin_oth c))) buf len) w2
            in Inr (ucast sent_bytes, w3))"

definition network_udp_receive :: "c_int \<Rightarrow> size_t \<Rightarrow> recv_os \<Rightarrow> world \<Rightarrow> result" where
  "network_udp_receive conn_id len os w =
     (case get_network_conn conn_id of
        None \<Rightarrow> Inl NullDeref
      | Some i \<Rightarrow>
          let c = conn_at i w in
          if \<not> ((server c \<and> state c \<noteq> NETWORK_CONN_STATE_UNITIALIZED) \<or>
                 (\<not> server c \<and> state c = NETWORK_CONN_STATE_CONNECTED))
          then Inl AssertFailed
          else
            let w1 = emit (Recvfrom (fd c) len) w;
                recv_bytes = recv_ret os;
                sin_oth_tmp = recv_from os
            in if sint recv_bytes < 0
               then let rc = recv_errno os
                    in Inr (- 1, perror_if (rc \<noteq> EAGAIN \<and> rc \<noteq> EWOULDBLOCK) ''recvfrom'' w1)
               else
                 let w2 = emit (Hexdump (Received_line recv_bytes (sin_port sin_oth_tmp))
                            (recv_data os) recv_bytes) w1
                 in if server (conn_at i w2) \<and>
                       state (conn_at i w2) = NETWORK_CONN_STATE_DISCONNECTED
                    then (case network_udp_connect conn_id (sin_addr sin_oth_tmp)
                                 (sin_port sin_oth_tmp) w2 of
                            Inl f \<Rightarrow> Inl f
                          | Inr (_, w3) \<Rightarrow> Inr (ucast recv_bytes, w3))
                    else Inr (ucast recv_bytes, w2))"

definition network_udp_disconnect :: "c_int \<Rightarrow> world \<Rightarrow> result" where
  "network_udp_disconnect conn_id w =
     (case get_network_conn conn_id of
        None \<Rightarrow> Inl NullDeref
      | Some i \<Rightarrow>
          if state (conn_at i w) \<noteq> NETWORK_CONN_STATE_CONNECTED then Inl AssertFailed
          else Inr (0, conn_upd i (\<lambda>c. c\<lparr>state := NETWORK_CONN_STATE_DISCONNECTED\<rparr>) w))"

definition network_udp_free :: "c_int \<Rightarrow> world \<Rightarrow> result" where
  "network_udp_free conn_id w =
     (case get_network_conn conn_id of
        None \<Rightarrow> Inl NullDeref
      | Some i \<Rightarrow>
          if state (conn_at i w) \<noteq> NETWORK_CONN_STATE_DISCONNECTED then Inl AssertFailed
          else Inr (0, conn_upd i (\<lambda>c. c\<lparr>state := NETWORK_CONN_STATE_UNITIALIZED\<rparr>)
                        (emit (Close (fd (conn_at i w))) w)))"

subsection \<open>The stream transport\<close>

definition network_tcp_init_conn :: "in_port_t \<Rightarrow> bool \<Rightarrow> init_os \<Rightarrow> world \<Rightarrow> result" where
  "network_tcp_init_conn port srv os w0 =
     (let conn_id = g_conn_count w0;
          w1 = w0\<lparr>g_conn_count := conn_id + 1\<rparr>;
          i = unat conn_id;
          one = (1 :: c_int)
      in if \<not> i < MAX_NETWORK_CONNECTIONS then Inl OutOfBounds
         else if state (conn_at i w1) \<noteq> NETWORK_CONN_STATE_UNITIALIZED then Inl AssertFailed
         else
           let w2 = conn_upd i (\<lambda>c. c\<lparr>fd := socket_ret os\<rparr>) (emit (Socket SOCK_STREAM) w1)
           in if fd (conn_at i w2) = - 1 then Inr (- 1, emit (Perror ''socket'') w2)
              else
                let w3 = conn_upd i (\<lambda>c. c\<lparr>server := False\<rparr>) w2;
                    w4 = perror_if (setsockopt_recv_ret os \<noteq> 0) ''setsockopt recv''
                           (emit (Setsockopt (fd (conn_at i w3))
                              (SO_RCVTIMEO CONNECTION_TIMEOUT_SEC)) w3);
                    w5 = perror_if (setsockopt_send_ret os \<noteq> 0) ''setsockopt send''
                           (emit (Setsockopt (fd (conn_at i w4))
                              (SO_SNDTIMEO CONNECTION_TIMEOUT_SEC)) w4);
                    w5' = perror_if (setsockopt_reuse_ret os \<noteq> 0) ''setsockopt''
                           (emit (Setsockopt (fd (conn_at i w5)) (SO_REUSEADDR one)) w5);
                    w6 = conn_upd i (\<lambda>c. c\<lparr>sin_me := (sin_me c)\<lparr>sin_family := AF_INET,
                           sin_addr := htonl_INADDR_ANY, sin_port := port\<rparr>\<rparr>) w5';
                    w7 = (if 0 < port
                          then emit (Bind (fd (conn_at i w6)) (sin_me (conn_at i w6))) w6
                          else w6)
                in if 0 < port \<and> bind_ret os \<noteq> 0
                   then Inr (- 1, emit (Close (fd (conn_at i w7))) (emit (Perror ''bind'') w7))
                   else Inr (conn_id,
                          conn_upd i (\<lambda>c. c\<lparr>state := NETWORK_CONN_STATE_DISCONNECTED\<rparr>) w7))"

text \<open>\<open>connect_ret\<close> is what \<^verbatim>\<open>connect\<close> returns.\<close>

definition network_tcp_connect :: "c_int \<Rightarrow> in_addr_t \<Rightarrow> in_port_t \<Rightarrow> c_int \<Rightarrow> world \<Rightarrow> result" where
  "network_tcp_connect conn_id addr port connect_ret w =
     (case get_network_conn conn_id of
        None \<Rightarrow> Inl NullDeref
      | Some i \<Rightarrow>
          if state (conn_at i w) \<noteq> NETWORK_CONN_STATE_DISCONNECTED then Inl AssertFailed
          else
            let w1 = conn_upd i (\<lambda>c. c\<lparr>sin_oth := (sin_oth c)\<lparr>sin_addr := addr,
                         sin_family := AF_INET, sin_port := port\<rparr>,
                       slen := sizeof_sockaddr_in\<rparr>) w;
                c1 = conn_at i w1;
                w2 = emit (Connect (fd c1) (sin_oth c1) (slen c1)) w1
            in if connect_ret \<noteq> 0 then Inr (- 1, emit (Perror ''connect'') w2)
               else Inr (0, conn_upd i (\<lambda>c. c\<lparr>state := NETWORK_CONN_STATE_CONNECTED\<rparr>) w2))"

definition network_tcp_send :: "c_int \<Rightarrow> byte list \<Rightarrow> size_t \<Rightarrow> ssize_t \<Rightarrow> world \<Rightarrow> result" where
  "network_tcp_send conn_id buf len send_ret w =
     (case get_network_conn conn_id of
        None \<Rightarrow> Inl NullDeref
      | Some i \<Rightarrow>
          if state (conn_at i w) \<noteq> NETWORK_CONN_STATE_CONNECTED then Inl AssertFailed
          else
            let c = conn_at i w;
                w1 = emit (Send (fd c) buf len) w;
                sent_bytes = send_ret;
                w2 = perror_if (sint sent_bytes < 0) ''sendto'' w1;
                w3 = emit (Hexdump (Sent_line sent_bytes len (sin_port (sin_oth c))) buf len) w2
            in Inr (ucast sent_bytes, w3))"

definition network_tcp_receive :: "c_int \<Rightarrow> size_t \<Rightarrow> recv_os \<Rightarrow> world \<Rightarrow> result" where
  "network_tcp_receive conn_id len os w =
     (case get_network_conn conn_id of
        None \<Rightarrow> Inl NullDeref
      | Some i \<Rightarrow>
          if state (conn_at i w) \<noteq> NETWORK_CONN_STATE_CONNECTED then Inl AssertFailed
          else
            let c = conn_at i w;
                w1 = emit (Recv (fd c) len) w;
                recv_bytes = recv_ret os;
                rc = recv_errno os
            in if sint recv_bytes < 0
               then Inr (- 1, perror_if (rc \<noteq> EAGAIN \<and> rc \<noteq> EWOULDBLOCK) ''recvfrom'' w1)
               else Inr (ucast recv_bytes,
                      emit (Hexdump (Received_line recv_bytes (sin_port (sin_oth c)))
                              (recv_data os) recv_bytes) w1))"

definition network_tcp_disconnect :: "c_int \<Rightarrow> world \<Rightarrow> result" where
  "network_tcp_disconnect conn_id w =
     (case get_network_conn conn_id of
        None \<Rightarrow> Inl NullDeref
      | Some i \<Rightarrow>
          if state (conn_at i w) \<noteq> NETWORK_CONN_STATE_CONNECTED then Inl AssertFailed
          else Inr (0, conn_upd i (\<lambda>c. c\<lparr>state := NETWORK_CONN_STATE_DISCONNECTED\<rparr>)
                        (emit (Close (fd (conn_at i w))) w)))"

definition network_tcp_free :: "c_int \<Rightarrow> world \<Rightarrow> result" where
  "network_tcp_free conn_id w =
     (case get_network_conn conn_id of
        None \<Rightarrow> Inl NullDeref
      | Some i \<Rightarrow>
          if state (conn_at i w) \<noteq> NETWORK_CONN_STATE_DISCONNECTED then Inl AssertFailed
          else Inr (0, conn_upd i (\<lambda>c. c\<lparr>state := NETWORK_CONN_STATE_UNITIALIZED\<rparr>) w))"

subsection \<open>Calls and runs\<close>

text \<open>
  One constructor per exported function, carrying its arguments and the values the
  system calls made by it return. \<open>exec\<close> is the function call, \<open>run\<close> a sequence of
  calls by one thread that stops at the first fault.
\<close>

datatype call =
    Udp_init_conn in_port_t bool init_os
  | Udp_connect c_int in_addr_t in_port_t
  | Udp_send c_int "byte list" size_t ssize_t
  | Udp_receive c_int size_t recv_os
  | Udp_disconnect c_int
  | Udp_free c_int
  | Tcp_init_conn in_port_t bool init_os
  | Tcp_connect c_int in_addr_t in_port_t c_int
  | Tcp_send c_int "byte list" size_t ssize_t
  | Tcp_receive c_int size_t recv_os
  | Tcp_disconnect c_int
  | Tcp_free c_int

fun exec :: "call \<Rightarrow> world \<Rightarrow> result" where
  "exec (Udp_init_conn port srv os) w = network_udp_init_conn port srv os w"
| "exec (Udp_connect h addr port) w = network_udp_connect h addr port w"
| "exec (Udp_send h buf len r) w = network_udp_send h buf len r w"
| "exec (Udp_receive h len os) w = network_udp_receive h len os w"
| "exec (Udp_disconnect h) w = network_udp_disconnect h w"
| "exec (Udp_free h) w = network_udp_free h w"
| "exec (Tcp_init_conn port srv os) w = network_tcp_init_conn port srv os w"
| "exec (Tcp_connect h addr port r) w = network_tcp_connect h addr port r w"
| "exec (Tcp_send h buf len r) w = network_tcp_send h buf len r w"
| "exec (Tcp_receive h len os) w = network_tcp_receive h len os w"
| "exec (Tcp_disconnect h) w = network_tcp_disconnect h w"
| "exec (Tcp_free h) w = network_tcp_free h w"

fun run :: "call list \<Rightarrow> world \<Rightarrow> fault + (c_int list \<times> world)" where
  "run [] w = Inr ([], w)"
| "run (c # cs) w =
     (case exec c w of
        Inl f \<Rightarrow> Inl f
      | Inr (rc, w') \<Rightarrow>
          (case run cs w' of
             Inl f \<Rightarrow> Inl f
           | Inr (rcs, w'') \<Rightarrow> Inr (rc # rcs, w'')))"

fun is_init :: "call \<Rightarrow> bool" where
  "is_init (Udp_init_conn _ _ _) = True"
| "is_init (Tcp_init_conn _ _ _) = True"
| "is_init _ = False"

text \<open>The handle a call is given; the init calls take none.\<close>

fun call_handle :: "call \<Rightarrow> c_int option" where
  "call_handle (Udp_init_conn _ _ _) = None"
| "call_handle (Udp_connect h _ _) = Some h"
| "call_handle (Udp_send h _ _ _) = Some h"
| "call_handle (Udp_receive h _ _) = Some h"
| "call_handle (Udp_disconnect h) = Some h"
| "call_handle (Udp_free h) = Some h"
| "call_handle (Tcp_init_conn _ _ _) = None"
| "call_handle (Tcp_connect h _ _ _) = Some h"
| "call_handle (Tcp_send h _ _ _) = Some h"
| "call_handle (Tcp_receive h _ _) = Some h"
| "call_handle (Tcp_disconnect h) = Some h"
| "call_handle (Tcp_free h) = Some h"

text \<open>
  The state each operation requires, in the words of the specification: connect and free
  require Disconnected; send, disconnect and the stream receive require Connected; the
  datagram receive requires Connected for a client and is also legal in Disconnected state
  for a server. An init requires the record it is about to use to be Uninitialized.
\<close>

fun required_state :: "call \<Rightarrow> network_conn \<Rightarrow> bool" where
  "required_state (Udp_connect _ _ _) c = (state c = NETWORK_CONN_STATE_DISCONNECTED)"
| "required_state (Udp_send _ _ _ _) c = (state c = NETWORK_CONN_STATE_CONNECTED)"
| "required_state (Udp_receive _ _ _) c =
     (if server c
      then state c = NETWORK_CONN_STATE_DISCONNECTED \<or> state c = NETWORK_CONN_STATE_CONNECTED
      else state c = NETWORK_CONN_STATE_CONNECTED)"
| "required_state (Udp_disconnect _) c = (state c = NETWORK_CONN_STATE_CONNECTED)"
| "required_state (Udp_free _) c = (state c = NETWORK_CONN_STATE_DISCONNECTED)"
| "required_state (Tcp_connect _ _ _ _) c = (state c = NETWORK_CONN_STATE_DISCONNECTED)"
| "required_state (Tcp_send _ _ _ _) c = (state c = NETWORK_CONN_STATE_CONNECTED)"
| "required_state (Tcp_receive _ _ _) c = (state c = NETWORK_CONN_STATE_CONNECTED)"
| "required_state (Tcp_disconnect _) c = (state c = NETWORK_CONN_STATE_CONNECTED)"
| "required_state (Tcp_free _) c = (state c = NETWORK_CONN_STATE_DISCONNECTED)"
| "required_state (Udp_init_conn _ _ _) c = (state c = NETWORK_CONN_STATE_UNITIALIZED)"
| "required_state (Tcp_init_conn _ _ _) c = (state c = NETWORK_CONN_STATE_UNITIALIZED)"

text \<open>Either family's function, chosen by the transport.\<close>

datatype transport = Datagram | Stream

fun network_init_conn :: "transport \<Rightarrow> in_port_t \<Rightarrow> bool \<Rightarrow> init_os \<Rightarrow> world \<Rightarrow> result" where
  "network_init_conn Datagram = network_udp_init_conn"
| "network_init_conn Stream = network_tcp_init_conn"

fun network_receive :: "transport \<Rightarrow> c_int \<Rightarrow> size_t \<Rightarrow> recv_os \<Rightarrow> world \<Rightarrow> result" where
  "network_receive Datagram = network_udp_receive"
| "network_receive Stream = network_tcp_receive"

text \<open>The test each init function makes on what \<^verbatim>\<open>bind\<close> returns.\<close>

fun bind_failed :: "transport \<Rightarrow> init_os \<Rightarrow> bool" where
  "bind_failed Datagram os = (bind_ret os = - 1)"
| "bind_failed Stream os = (bind_ret os \<noteq> 0)"

text \<open>The system call a receive makes, as it appears in the trace.\<close>

fun receive_event :: "transport \<Rightarrow> c_int \<Rightarrow> size_t \<Rightarrow> event" where
  "receive_event Datagram d len = Recvfrom d len"
| "receive_event Stream d len = Recv d len"

text \<open>The table has \<^verbatim>\<open>MAX_NETWORK_CONNECTIONS\<close> records, as its C type says.\<close>

definition table_ok :: "world \<Rightarrow> bool" where
  "table_ok w = (length (g_conns w) = MAX_NETWORK_CONNECTIONS)"

text \<open>
  A record with the stored peer endpoint blanked unless the record is Connected, and the
  table seen through it: two worlds with the same view differ at most in the
  \<^verbatim>\<open>sin_oth\<close> and \<^verbatim>\<open>slen\<close> fields of records that are not Connected.
\<close>

definition forget_peer :: "network_conn \<Rightarrow> network_conn" where
  "forget_peer c =
     (if state c = NETWORK_CONN_STATE_CONNECTED then c
      else c\<lparr>sin_oth := zero_sockaddr, slen := 0\<rparr>)"

definition peer_view :: "world \<Rightarrow> world" where
  "peer_view w = w\<lparr>g_conns := map forget_peer (g_conns w)\<rparr>"

subsection \<open>Concrete inputs\<close>

text \<open>
  Inputs at which the theorems below are instantiated: what the system calls of an init
  return when all succeed and \<^verbatim>\<open>socket\<close> returns descriptor \<open>d\<close>, the same with a
  failing \<^verbatim>\<open>bind\<close>, a datagram of \<open>n\<close> bytes from a sender, a failed read with a
  given \<^verbatim>\<open>errno\<close>, and the table in which record 0 is \<open>c\<close> and the others are unused.
\<close>

definition os_ok :: "c_int \<Rightarrow> init_os" where
  "os_ok d = \<lparr>socket_ret = d, setsockopt_recv_ret = 0, setsockopt_send_ret = 0,
     setsockopt_reuse_ret = 0, bind_ret = 0\<rparr>"

definition os_bind_fails :: "c_int \<Rightarrow> init_os" where
  "os_bind_fails d = (os_ok d)\<lparr>bind_ret := - 1\<rparr>"

definition os_socket_fails :: init_os where
  "os_socket_fails = os_ok (- 1)"

definition read_ok :: "ssize_t \<Rightarrow> sockaddr_in \<Rightarrow> byte list \<Rightarrow> recv_os" where
  "read_ok n sender bs = \<lparr>recv_ret = n, recv_errno = 0, recv_from = sender, recv_data = bs\<rparr>"

definition read_fails :: "c_int \<Rightarrow> recv_os" where
  "read_fails e = \<lparr>recv_ret = - 1, recv_errno = e, recv_from = zero_sockaddr, recv_data = []\<rparr>"

definition peer1 :: sockaddr_in where
  "peer1 = \<lparr>sin_family = AF_INET, sin_port = 54921, sin_addr = 167772161\<rparr>"

definition conn0 :: "bool \<Rightarrow> network_conn_state \<Rightarrow> sockaddr_in \<Rightarrow> network_conn" where
  "conn0 srv st oth = \<lparr>fd = 3, server = srv, state = st,
     sin_me = \<lparr>sin_family = AF_INET, sin_port = 5000, sin_addr = htonl_INADDR_ANY\<rparr>,
     sin_oth = oth, slen = (if oth = zero_sockaddr then 0 else sizeof_sockaddr_in)\<rparr>"

definition world_with :: "network_conn \<Rightarrow> world" where
  "world_with c = \<lparr>g_conn_count = 1, g_conns = c # replicate 31 zero_conn, os_trace = []\<rparr>"

text \<open>
  The worlds left at program start by \<^verbatim>\<open>network_udp_init_conn(5000, false)\<close> and by
  \<^verbatim>\<open>network_tcp_init_conn(5000, ...)\<close> when every system call succeeds and the
  descriptor is 3, and by \<^verbatim>\<open>network_udp_init_conn(5000, true)\<close> when \<^verbatim>\<open>bind\<close>
  fails; and the world a run ends in.
\<close>

definition datagram_world :: world where
  "datagram_world = (world_with (conn0 False NETWORK_CONN_STATE_DISCONNECTED zero_sockaddr))
     \<lparr>os_trace := [Socket SOCK_DGRAM, Setsockopt 3 (SO_RCVTIMEO 3), Setsockopt 3 (SO_SNDTIMEO 3),
        Bind 3 \<lparr>sin_family = AF_INET, sin_port = 5000, sin_addr = htonl_INADDR_ANY\<rparr>]\<rparr>"

definition stream_world :: world where
  "stream_world = (world_with (conn0 False NETWORK_CONN_STATE_DISCONNECTED zero_sockaddr))
     \<lparr>os_trace := [Socket SOCK_STREAM, Setsockopt 3 (SO_RCVTIMEO 3), Setsockopt 3 (SO_SNDTIMEO 3),
        Setsockopt 3 (SO_REUSEADDR 1),
        Bind 3 \<lparr>sin_family = AF_INET, sin_port = 5000, sin_addr = htonl_INADDR_ANY\<rparr>]\<rparr>"

definition failed_init_world :: world where
  "failed_init_world = (world_with (conn0 True NETWORK_CONN_STATE_UNITIALIZED zero_sockaddr))
     \<lparr>os_trace := [Socket SOCK_DGRAM, Setsockopt 3 (SO_RCVTIMEO 3), Setsockopt 3 (SO_SNDTIMEO 3),
        Bind 3 \<lparr>sin_family = AF_INET, sin_port = 5000, sin_addr = htonl_INADDR_ANY\<rparr>,
        Perror ''bind'', Close 3]\<rparr>"

definition final_world :: "fault + (c_int list \<times> world) \<Rightarrow> world" where
  "final_world r = (case r of Inl _ \<Rightarrow> startup | Inr (_, w) \<Rightarrow> w)"

section \<open>Basic facts\<close>

lemmas op_defs = network_udp_connect_def network_udp_send_def network_udp_receive_def
  network_udp_disconnect_def network_udp_free_def network_tcp_connect_def network_tcp_send_def
  network_tcp_receive_def network_tcp_disconnect_def network_tcp_free_def

lemmas model_defs = get_network_conn_def conn_at_def conn_upd_def emit_def perror_if_def

text \<open>
  A handle passes the test \<^verbatim>\<open>(unsigned) conn_id < MAX_NETWORK_CONNECTIONS\<close> exactly
  when, read as the signed \<^verbatim>\<open>int\<close> it is, it lies in 0..31.
\<close>

lemma handle_range32: "unat (h :: 32 word) < 32 \<longleftrightarrow> 0 \<le> sint h \<and> sint h \<le> 31"
proof -
  have eq: "sint h = signed_take_bit 31 (uint h)"
    by (simp add: sint_uint)
  have ub: "uint h < 2 ^ 32"
    using uint_lt2p [of h] by simp
  have un: "unat h < 32 \<longleftrightarrow> uint h < 32"
  proof -
    have "0 \<le> uint h" by simp
    moreover have "unat h = nat (uint h)" by (rule unat_eq_nat_uint)
    ultimately show ?thesis by linarith
  qed
  show ?thesis
  proof (cases "uint h < 2 ^ 31")
    case True
    moreover have "- (2 ^ 31) \<le> uint h"
      by (rule order_trans [of _ 0]) simp_all
    ultimately have "signed_take_bit 31 (uint h) = uint h"
      by (rule signed_take_bit_int_eq_self [rotated])
    then have "sint h = uint h"
      using eq by simp
    then show ?thesis
      using un by auto
  next
    case False
    then have "sint h \<le> uint h - 2 ^ 32"
      using signed_take_bit_int_less_eq [of 31 "uint h"] eq by simp
    then have "sint h < 0"
      using ub by simp
    then show ?thesis
      using False un by auto
  qed
qed

lemma handle_range:
  "unat (h :: c_int) < MAX_NETWORK_CONNECTIONS \<longleftrightarrow> 0 \<le> sint h \<and> sint h \<le> 31"
  by (simp add: MAX_NETWORK_CONNECTIONS_def handle_range32)

lemma in_range_not_minus_one: "unat (h :: c_int) < MAX_NETWORK_CONNECTIONS \<Longrightarrow> h \<noteq> - 1"
  by (auto simp: MAX_NETWORK_CONNECTIONS_def unsigned_minus_1_eq_mask mask_eq_exp_minus_1)

lemma unat_count_Suc:
  "unat (c :: c_int) < MAX_NETWORK_CONNECTIONS \<Longrightarrow> unat (c + 1) = Suc (unat c)"
  by (simp add: MAX_NETWORK_CONNECTIONS_def unat_word_ariths)

lemma state_not_uninit:
  "s \<noteq> NETWORK_CONN_STATE_UNITIALIZED \<longleftrightarrow>
     s = NETWORK_CONN_STATE_DISCONNECTED \<or> s = NETWORK_CONN_STATE_CONNECTED"
  by (cases s) simp_all

lemma emit_simps [simp]:
  "g_conn_count (emit e w) = g_conn_count w"
  "g_conns (emit e w) = g_conns w"
  "os_trace (emit e w) = os_trace w @ [e]"
  "conn_at i (emit e w) = conn_at i w"
  "table_ok (emit e w) = table_ok w"
  by (simp_all add: emit_def conn_at_def table_ok_def)

lemma perror_if_simps [simp]:
  "g_conn_count (perror_if b m w) = g_conn_count w"
  "g_conns (perror_if b m w) = g_conns w"
  "os_trace (perror_if b m w) = os_trace w @ (if b then [Perror m] else [])"
  "conn_at i (perror_if b m w) = conn_at i w"
  "table_ok (perror_if b m w) = table_ok w"
  by (simp_all add: perror_if_def conn_at_def table_ok_def)

lemma conn_upd_simps [simp]:
  "g_conn_count (conn_upd i f w) = g_conn_count w"
  "g_conns (conn_upd i f w) = (g_conns w)[i := f (g_conns w ! i)]"
  "os_trace (conn_upd i f w) = os_trace w"
  "table_ok (conn_upd i f w) = table_ok w"
  by (simp_all add: conn_upd_def table_ok_def)

lemma conn_at_conn_upd_same [simp]:
  "table_ok w \<Longrightarrow> i < MAX_NETWORK_CONNECTIONS \<Longrightarrow> conn_at i (conn_upd i f w) = f (conn_at i w)"
  by (simp add: conn_at_def conn_upd_def table_ok_def)

lemma conn_at_conn_upd_other [simp]:
  "j \<noteq> i \<Longrightarrow> conn_at j (conn_upd i f w) = conn_at j w"
  by (simp add: conn_at_def conn_upd_def)

lemma count_upd_simps [simp]:
  "conn_at i (w\<lparr>g_conn_count := c\<rparr>) = conn_at i w"
  "table_ok (w\<lparr>g_conn_count := c\<rparr>) = table_ok w"
  by (simp_all add: conn_at_def table_ok_def)

lemma world_with_simps [simp]:
  "table_ok (world_with c)"
  "conn_at 0 (world_with c) = c"
  "g_conn_count (world_with c) = 1"
  "os_trace (world_with c) = []"
  by (simp_all add: world_with_def table_ok_def conn_at_def MAX_NETWORK_CONNECTIONS_def)

lemma conn0_simps [simp]:
  "fd (conn0 srv st oth) = 3"
  "server (conn0 srv st oth) = srv"
  "state (conn0 srv st oth) = st"
  "sin_oth (conn0 srv st oth) = oth"
  by (simp_all add: conn0_def)

subsection \<open>Steps of init calls and of runs\<close>

lemma startup_table_ok [simp]: "table_ok startup"
  by (simp add: startup_def table_ok_def)

lemma startup_count [simp]: "g_conn_count startup = 0"
  by (simp add: startup_def)

lemma trace_upd_simps [simp]:
  "conn_at i (w\<lparr>os_trace := tr\<rparr>) = conn_at i w"
  "table_ok (w\<lparr>os_trace := tr\<rparr>) = table_ok w"
  by (simp_all add: conn_at_def table_ok_def)

lemma init_conn_step:
  assumes ret: "network_init_conn t port srv os w = Inr (rc, w')" and tbl: "table_ok w"
  shows "unat (g_conn_count w) < MAX_NETWORK_CONNECTIONS \<and>
     state (conn_at (unat (g_conn_count w)) w) = NETWORK_CONN_STATE_UNITIALIZED \<and>
     g_conn_count w' = g_conn_count w + 1 \<and> table_ok w' \<and>
     (\<forall>j. j \<noteq> unat (g_conn_count w) \<longrightarrow> conn_at j w' = conn_at j w) \<and>
     (rc = - 1 \<longrightarrow> state (conn_at (unat (g_conn_count w)) w') = NETWORK_CONN_STATE_UNITIALIZED) \<and>
     (rc \<noteq> - 1 \<longrightarrow> rc = g_conn_count w \<and>
           state (conn_at (unat (g_conn_count w)) w') = NETWORK_CONN_STATE_DISCONNECTED)"
proof -
  let ?i = "unat (g_conn_count w)"
  from ret have r: "?i < MAX_NETWORK_CONNECTIONS"
    by (cases t) (simp_all add: network_udp_init_conn_def network_tcp_init_conn_def Let_def
        split: if_splits)
  from ret r have u: "state (conn_at ?i w) = NETWORK_CONN_STATE_UNITIALIZED"
    by (cases t) (simp_all add: network_udp_init_conn_def network_tcp_init_conn_def Let_def
        split: if_splits)
  note nm = in_range_not_minus_one [OF r]
  show ?thesis
  proof (cases t)
    case Datagram
    show ?thesis
    proof (cases "socket_ret os = - 1")
      case True
      with ret tbl r u Datagram show ?thesis
        by (simp add: network_udp_init_conn_def Let_def) auto
    next
      case False
      show ?thesis
      proof (cases "0 < port \<and> bind_ret os = - 1")
        case True
        with ret tbl r u False Datagram show ?thesis
          by (simp add: network_udp_init_conn_def Let_def) auto
      next
        case b: False
        with ret tbl r u False nm Datagram show ?thesis
          by (simp add: network_udp_init_conn_def Let_def) auto
      qed
    qed
  next
    case Stream
    show ?thesis
    proof (cases "socket_ret os = - 1")
      case True
      with ret tbl r u Stream show ?thesis
        by (simp add: network_tcp_init_conn_def Let_def) auto
    next
      case False
      show ?thesis
      proof (cases "0 < port \<and> bind_ret os \<noteq> 0")
        case True
        with ret tbl r u False Stream show ?thesis
          by (simp add: network_tcp_init_conn_def Let_def) auto
      next
        case b: False
        with ret tbl r u False nm Stream show ?thesis
          by (simp add: network_tcp_init_conn_def Let_def) auto
      qed
    qed
  qed
qed

lemma init_conn_bind_fails:
  assumes tbl: "table_ok w"
    and r: "unat (g_conn_count w) < MAX_NETWORK_CONNECTIONS"
    and u: "state (conn_at (unat (g_conn_count w)) w) = NETWORK_CONN_STATE_UNITIALIZED"
    and sock: "socket_ret os \<noteq> - 1"
    and port: "0 < port"
    and bind: "bind_ret os = - 1"
  shows "\<exists>w' evs. network_init_conn t port srv os w = Inr (- 1, w') \<and>
           os_trace w' = os_trace w @ evs @ [Close (socket_ret os)]"
proof (cases t)
  case Datagram
  with assms show ?thesis
    by (simp add: network_udp_init_conn_def Let_def)
next
  case Stream
  with assms show ?thesis
    by (simp add: network_tcp_init_conn_def Let_def)
qed

lemma is_init_exec:
  assumes "is_init c"
  obtains t port srv os where "exec c = network_init_conn t port srv os"
proof (cases c)
  case (Udp_init_conn port srv os)
  then have "exec c = network_init_conn Datagram port srv os"
    by (simp add: fun_eq_iff)
  then show ?thesis by (rule that)
next
  case (Tcp_init_conn port srv os)
  then have "exec c = network_init_conn Stream port srv os"
    by (simp add: fun_eq_iff)
  then show ?thesis by (rule that)
qed (use assms in simp_all)

lemma call_handle_None: "call_handle c = None \<longleftrightarrow> is_init c"
  by (cases c) simp_all

lemma exec_returns_iff:
  assumes "call_handle c = Some h" and "unat h < MAX_NETWORK_CONNECTIONS"
  shows "(\<exists>rc w'. exec c w = Inr (rc, w')) \<longleftrightarrow> required_state c (conn_at (unat h) w)"
  using assms
  by (cases c) (auto simp: op_defs get_network_conn_def Let_def state_not_uninit)

lemma exec_handle_step:
  assumes "call_handle c = Some h" and "exec c w = Inr (rc, w')" and "table_ok w"
  shows "g_conn_count w' = g_conn_count w \<and> table_ok w' \<and>
     unat h < MAX_NETWORK_CONNECTIONS \<and>
     state (conn_at (unat h) w) \<noteq> NETWORK_CONN_STATE_UNITIALIZED \<and>
     (\<forall>j. j \<noteq> unat h \<longrightarrow> conn_at j w' = conn_at j w)"
  using assms
  by (cases c) (auto simp: op_defs get_network_conn_def Let_def split: if_splits)

lemma exec_step:
  assumes ret: "exec c w = Inr (rc, w')" and tbl: "table_ok w"
  shows "table_ok w' \<and>
     (is_init c \<longrightarrow> unat (g_conn_count w) < MAX_NETWORK_CONNECTIONS \<and>
        g_conn_count w' = g_conn_count w + 1) \<and>
     (\<not> is_init c \<longrightarrow> g_conn_count w' = g_conn_count w) \<and>
     (\<forall>j < unat (g_conn_count w).
        state (conn_at j w) = NETWORK_CONN_STATE_UNITIALIZED \<longrightarrow>
        state (conn_at j w') = NETWORK_CONN_STATE_UNITIALIZED)"
proof (cases "is_init c")
  case True
  then obtain t port srv os where "exec c = network_init_conn t port srv os"
    by (rule is_init_exec)
  with ret have "network_init_conn t port srv os w = Inr (rc, w')"
    by simp
  from init_conn_step [OF this tbl] True show ?thesis
    by auto
next
  case False
  then obtain h where h: "call_handle c = Some h"
    using call_handle_None [of c] by (cases "call_handle c") auto
  from exec_handle_step [OF h ret tbl] False show ?thesis
    by metis
qed

lemma run_ConsE:
  assumes "run (c # cs) w = Inr (rcs, w')"
  obtains rc w1 rcs1 where "exec c w = Inr (rc, w1)" and "run cs w1 = Inr (rcs1, w')"
    and "rcs = rc # rcs1"
  using assms by (auto split: sum.splits prod.splits)

lemma run_steps:
  assumes "run cs w = Inr (rcs, w')" and "table_ok w"
    and "unat (g_conn_count w) \<le> MAX_NETWORK_CONNECTIONS"
  shows "table_ok w' \<and>
     unat (g_conn_count w') = unat (g_conn_count w) + length (filter is_init cs) \<and>
     unat (g_conn_count w') \<le> MAX_NETWORK_CONNECTIONS \<and>
     (\<forall>j < unat (g_conn_count w).
        state (conn_at j w) = NETWORK_CONN_STATE_UNITIALIZED \<longrightarrow>
        state (conn_at j w') = NETWORK_CONN_STATE_UNITIALIZED)"
  using assms
proof (induction cs arbitrary: w rcs)
  case Nil
  then show ?case by simp
next
  case (Cons c cs)
  from Cons.prems(1) obtain rc w1 rcs1 where
    ex: "exec c w = Inr (rc, w1)" and rest: "run cs w1 = Inr (rcs1, w')"
    by (rule run_ConsE)
  note st = exec_step [OF ex Cons.prems(2)]
  from st have tbl1: "table_ok w1" by simp
  have cnt1: "unat (g_conn_count w1) = unat (g_conn_count w) + (if is_init c then 1 else 0)"
    using st by (auto simp: unat_count_Suc)
  have cap1: "unat (g_conn_count w1) \<le> MAX_NETWORK_CONNECTIONS"
    using st cnt1 Cons.prems(3) by auto
  note ih = Cons.IH [OF rest tbl1 cap1]
  have "\<forall>j < unat (g_conn_count w).
        state (conn_at j w) = NETWORK_CONN_STATE_UNITIALIZED \<longrightarrow>
        state (conn_at j w') = NETWORK_CONN_STATE_UNITIALIZED"
  proof (intro allI impI)
    fix j
    assume j: "j < unat (g_conn_count w)"
      and u: "state (conn_at j w) = NETWORK_CONN_STATE_UNITIALIZED"
    from st j u have "state (conn_at j w1) = NETWORK_CONN_STATE_UNITIALIZED"
      by simp
    moreover from j cnt1 have "j < unat (g_conn_count w1)"
      by simp
    ultimately show "state (conn_at j w') = NETWORK_CONN_STATE_UNITIALIZED"
      using ih by simp
  qed
  with ih cnt1 show ?case
    by simp
qed

lemma init_conn_returns:
  assumes tbl: "table_ok w"
    and slot: "unat (g_conn_count w) < MAX_NETWORK_CONNECTIONS"
    and unused: "state (conn_at (unat (g_conn_count w)) w) = NETWORK_CONN_STATE_UNITIALIZED"
  shows "\<exists>rc w1. network_init_conn t port srv os w = Inr (rc, w1) \<and>
     (rc = - 1 \<longleftrightarrow> socket_ret os = - 1 \<or> (0 < port \<and> bind_failed t os))"
proof (cases t)
  case Datagram
  with assms in_range_not_minus_one [OF slot] show ?thesis
    by (simp add: network_udp_init_conn_def Let_def)
next
  case Stream
  with assms in_range_not_minus_one [OF slot] show ?thesis
    by (simp add: network_tcp_init_conn_def Let_def)
qed

lemma exec_init_handle:
  assumes "exec c w = Inr (rc, w1)" and "table_ok w" and "is_init c" and "rc \<noteq> - 1"
  shows "rc = g_conn_count w"
proof -
  from assms(3) obtain t port srv os where "exec c = network_init_conn t port srv os"
    by (rule is_init_exec)
  with assms(1) have "network_init_conn t port srv os w = Inr (rc, w1)"
    by simp
  from init_conn_step [OF this assms(2)] assms(4) show ?thesis
    by simp
qed

lemma run_handles:
  assumes "run cs w = Inr (rcs, w')" and "table_ok w"
    and "unat (g_conn_count w) \<le> MAX_NETWORK_CONNECTIONS"
  shows "\<forall>k < length cs. is_init (cs ! k) \<and> rcs ! k \<noteq> - 1 \<longrightarrow>
     rcs ! k = g_conn_count w + of_nat (length (filter is_init (take k cs))) \<and>
     unat (g_conn_count w) \<le> unat (rcs ! k)"
  using assms
proof (induction cs arbitrary: w rcs)
  case Nil
  then show ?case by simp
next
  case (Cons c cs)
  from Cons.prems(1) obtain rc w1 rcs1 where
    ex: "exec c w = Inr (rc, w1)" and rest: "run cs w1 = Inr (rcs1, w')"
    and rcs: "rcs = rc # rcs1"
    by (rule run_ConsE)
  note st = exec_step [OF ex Cons.prems(2)]
  from st have tbl1: "table_ok w1" by simp
  have cnt1: "unat (g_conn_count w1) = unat (g_conn_count w) + (if is_init c then 1 else 0)"
    using st by (auto simp: unat_count_Suc)
  have wcnt1: "g_conn_count w1 = g_conn_count w + (if is_init c then 1 else 0)"
    using st by auto
  have cap1: "unat (g_conn_count w1) \<le> MAX_NETWORK_CONNECTIONS"
    using st cnt1 Cons.prems(3) by auto
  note ih = Cons.IH [OF rest tbl1 cap1]
  show ?case
  proof (intro allI impI)
    fix k
    assume k: "k < length (c # cs)"
      and i: "is_init ((c # cs) ! k) \<and> rcs ! k \<noteq> - 1"
    show "rcs ! k = g_conn_count w + of_nat (length (filter is_init (take k (c # cs)))) \<and>
          unat (g_conn_count w) \<le> unat (rcs ! k)"
    proof (cases k)
      case 0
      with i rcs have "is_init c" and "rc \<noteq> - 1"
        by simp_all
      with exec_init_handle [OF ex Cons.prems(2)] have "rc = g_conn_count w"
        by simp
      with 0 rcs show ?thesis
        by simp
    next
      case (Suc k')
      with k i rcs have k': "k' < length cs" and i': "is_init (cs ! k') \<and> rcs1 ! k' \<noteq> - 1"
        by simp_all
      with ih have "rcs1 ! k' = g_conn_count w1 + of_nat (length (filter is_init (take k' cs)))"
        and "unat (g_conn_count w1) \<le> unat (rcs1 ! k')"
        by simp_all
      with Suc rcs cnt1 wcnt1 show ?thesis
        by simp
    qed
  qed
qed

lemma count_successful_inits:
  "length (filter (\<lambda>(c, r). is_init c \<and> Q r) (zip cs rcs)) \<le> length (filter is_init cs)"
proof (induction cs arbitrary: rcs)
  case Nil
  then show ?case by simp
next
  case (Cons c cs)
  show ?case
  proof (cases rcs)
    case Nil
    then show ?thesis by simp
  next
    case (Cons r rs)
    with Cons.IH [of rs] show ?thesis
      by simp
  qed
qed

subsection \<open>Worlds with the same view of the peer endpoints\<close>

lemma forget_peer_fields:
  "fd (forget_peer a) = fd a" "server (forget_peer a) = server a"
  "state (forget_peer a) = state a" "sin_me (forget_peer a) = sin_me a"
  "state a = NETWORK_CONN_STATE_CONNECTED \<Longrightarrow> forget_peer a = a"
  by (simp_all add: forget_peer_def)

lemma forget_peer_eq_cases:
  assumes "forget_peer a = forget_peer b"
  obtains "a = b" | so sl where "state a \<noteq> NETWORK_CONN_STATE_CONNECTED"
    and "b = a\<lparr>sin_oth := so, slen := sl\<rparr>"
proof -
  have f: "fd a = fd b" "server a = server b" "state a = state b" "sin_me a = sin_me b"
    using assms forget_peer_fields(1-4) by metis+
  show ?thesis
  proof (cases "state a = NETWORK_CONN_STATE_CONNECTED")
    case True
    with assms f(3) have "a = b"
      by (simp add: forget_peer_fields(5))
    then show ?thesis by (rule that(1))
  next
    case False
    from f have "b = a\<lparr>sin_oth := sin_oth b, slen := slen b\<rparr>"
      by (intro network_conn.equality) simp_all
    with False show ?thesis by (rule that(2))
  qed
qed

lemma peer_view_simps [simp]:
  "g_conn_count (peer_view w) = g_conn_count w"
  "os_trace (peer_view w) = os_trace w"
  "g_conns (peer_view w) = map forget_peer (g_conns w)"
  by (simp_all add: peer_view_def)

lemma peer_view_eqI:
  assumes "g_conn_count w = g_conn_count v" and "os_trace w = os_trace v"
    and "map forget_peer (g_conns w) = map forget_peer (g_conns v)"
  shows "peer_view w = peer_view v"
  using assms by (intro world.equality) simp_all

lemma peer_view_eqD:
  assumes "peer_view w = peer_view v"
  shows "g_conn_count w = g_conn_count v" and "os_trace w = os_trace v"
    and "map forget_peer (g_conns w) = map forget_peer (g_conns v)"
  using arg_cong [OF assms, of g_conn_count] arg_cong [OF assms, of os_trace]
    arg_cong [OF assms, of g_conns]
  by simp_all

lemma peer_view_table_ok:
  assumes "peer_view w = peer_view v"
  shows "table_ok w = table_ok v"
  using map_eq_imp_length_eq [OF peer_view_eqD(3) [OF assms]] by (simp add: table_ok_def)

lemma peer_view_conn_at:
  assumes "peer_view w = peer_view v" and "table_ok w" and "i < MAX_NETWORK_CONNECTIONS"
  shows "forget_peer (conn_at i w) = forget_peer (conn_at i v)"
proof -
  from assms have i: "i < length (g_conns w)" "i < length (g_conns v)"
    using peer_view_table_ok [OF assms(1)] by (simp_all add: table_ok_def)
  from peer_view_eqD(3) [OF assms(1)]
  have "map forget_peer (g_conns w) ! i = map forget_peer (g_conns v) ! i"
    by simp
  with i show ?thesis
    by (simp add: conn_at_def)
qed

lemma peer_view_emit_cong:
  assumes "peer_view w = peer_view v" and "e = e'"
  shows "peer_view (emit e w) = peer_view (emit e' v)"
  using assms(2) peer_view_eqD [OF assms(1)] by (intro peer_view_eqI) simp_all

lemma peer_view_perror_if_cong:
  assumes "peer_view w = peer_view v"
  shows "peer_view (perror_if b m w) = peer_view (perror_if b m v)"
  using peer_view_eqD [OF assms] by (intro peer_view_eqI) simp_all

lemma peer_view_count_cong:
  assumes "peer_view w = peer_view v"
  shows "peer_view (w\<lparr>g_conn_count := c\<rparr>) = peer_view (v\<lparr>g_conn_count := c\<rparr>)"
  using peer_view_eqD [OF assms] by (intro peer_view_eqI) simp_all

lemma peer_view_conn_upd_cong:
  assumes "peer_view w = peer_view v"
    and "forget_peer (f (conn_at i w)) = forget_peer (g (conn_at i v))"
  shows "peer_view (conn_upd i f w) = peer_view (conn_upd i g v)"
  using assms(2) peer_view_eqD [OF assms(1)]
  by (intro peer_view_eqI) (simp_all add: map_update conn_at_def)

lemmas peer_view_congs = peer_view_conn_upd_cong peer_view_emit_cong peer_view_perror_if_cong
  peer_view_count_cong

lemma forget_peer_upd [simp]:
  "forget_peer (c\<lparr>state := NETWORK_CONN_STATE_CONNECTED\<rparr>) = c\<lparr>state := NETWORK_CONN_STATE_CONNECTED\<rparr>"
  "s \<noteq> NETWORK_CONN_STATE_CONNECTED \<Longrightarrow>
     forget_peer (c\<lparr>sin_oth := so, slen := sl, state := s\<rparr>) = forget_peer (c\<lparr>state := s\<rparr>)"
  "s \<noteq> NETWORK_CONN_STATE_CONNECTED \<Longrightarrow>
     forget_peer (c\<lparr>sin_oth := so, slen := sl\<rparr>\<lparr>state := s\<rparr>) = forget_peer (c\<lparr>state := s\<rparr>)"
  "state c \<noteq> NETWORK_CONN_STATE_CONNECTED \<Longrightarrow>
     forget_peer (c\<lparr>sin_oth := so, slen := sl\<rparr>) = forget_peer c"
  by (simp_all add: forget_peer_def)

lemma handle_call_peer_view:
  assumes tbl: "table_ok w" and pv: "peer_view w = peer_view v"
    and h: "call_handle c = Some h"
  shows "map_sum id (map_prod id peer_view) (exec c w) =
         map_sum id (map_prod id peer_view) (exec c v)"
proof (cases "unat h < MAX_NETWORK_CONNECTIONS")
  case False
  then have "get_network_conn h = None"
    by (simp add: get_network_conn_def)
  with h show ?thesis
    by (cases c) (simp_all add: op_defs)
next
  case True
  then have g: "get_network_conn h = Some (unat h)"
    by (simp add: get_network_conn_def)
  from tbl have tv: "table_ok v"
    using peer_view_table_ok [OF pv] by simp
  from peer_view_conn_at [OF pv tbl True]
  show ?thesis
  proof (cases rule: forget_peer_eq_cases)
    case 1
    with g h pv tbl tv True show ?thesis
      apply (cases c)
      apply (simp_all add: op_defs Let_def)
      apply (auto intro!: peer_view_congs)
      done
  next
    case (2 so sl)
    with g h pv tbl tv True show ?thesis
      apply (cases c)
      apply (simp_all add: op_defs Let_def)
      apply (auto intro!: peer_view_congs)
      done
  qed
qed

lemma init_call_peer_view:
  assumes tbl: "table_ok w" and pv: "peer_view w = peer_view v"
  shows "map_sum id (map_prod id peer_view) (network_init_conn t port srv os w) =
         map_sum id (map_prod id peer_view) (network_init_conn t port srv os v)"
proof (cases "unat (g_conn_count w) < MAX_NETWORK_CONNECTIONS")
  case False
  with peer_view_eqD(1) [OF pv] show ?thesis
    by (cases t) (simp_all add: network_udp_init_conn_def network_tcp_init_conn_def)
next
  case True
  note c = peer_view_eqD(1) [OF pv]
  from tbl have tv: "table_ok v"
    using peer_view_table_ok [OF pv] by simp
  from peer_view_conn_at [OF pv tbl True]
  show ?thesis
  proof (cases rule: forget_peer_eq_cases)
    case 1
    with c pv tbl tv True show ?thesis
      apply (cases t)
      apply (simp_all add: network_udp_init_conn_def network_tcp_init_conn_def Let_def)
      apply (auto intro!: peer_view_congs simp: forget_peer_def)
      done
  next
    case (2 so sl)
    with c pv tbl tv True show ?thesis
      apply (cases t)
      apply (simp_all add: network_udp_init_conn_def network_tcp_init_conn_def Let_def)
      apply (auto intro!: peer_view_congs simp: forget_peer_def)
      done
  qed
qed

lemma same_view_cases:
  assumes "map_sum id (map_prod id f) x = map_sum id (map_prod id f) y"
  obtains e where "x = Inl e" and "y = Inl e"
  | r a b where "x = Inr (r, a)" and "y = Inr (r, b)" and "f a = f b"
  using assms by (cases x; cases y) auto

lemma exec_peer_view:
  assumes tbl: "table_ok w" and pv: "peer_view w = peer_view v"
  shows "map_sum id (map_prod id peer_view) (exec c w) =
         map_sum id (map_prod id peer_view) (exec c v)"
proof (cases "is_init c")
  case True
  then obtain t port srv os where "exec c = network_init_conn t port srv os"
    by (rule is_init_exec)
  with init_call_peer_view [OF tbl pv] show ?thesis
    by simp
next
  case False
  then obtain h where "call_handle c = Some h"
    using call_handle_None [of c] by (cases "call_handle c") auto
  with tbl pv show ?thesis
    by (rule handle_call_peer_view)
qed

section \<open>The claims\<close>

text \<open>
  C1. A successful \<^verbatim>\<open>network_udp_receive\<close> (a read that returns 0 or more bytes) on a
  valid handle whose record is a server in Disconnected state returns the byte count and
  leaves the table exactly as \<^verbatim>\<open>network_udp_connect\<close> with the sender's address and
  port leaves it: the peer endpoint of the record holds the sender's address and port and
  the state is Connected. On a record that is already Connected a successful receive leaves
  the whole table, so the peer endpoint and the state, as it was.
\<close>

theorem udp_receive_lazy_peer_binding:
  assumes valid: "unat conn_id < MAX_NETWORK_CONNECTIONS"
    and tbl: "table_ok w"
    and ok: "0 \<le> sint (recv_ret os)"
  shows "(server (conn_at (unat conn_id) w) \<and>
          state (conn_at (unat conn_id) w) = NETWORK_CONN_STATE_DISCONNECTED \<longrightarrow>
          (\<exists>w' wc. network_udp_receive conn_id len os w = Inr (ucast (recv_ret os), w') \<and>
             network_udp_connect conn_id (sin_addr (recv_from os)) (sin_port (recv_from os)) w
               = Inr (0, wc) \<and>
             g_conns w' = g_conns wc \<and> g_conn_count w' = g_conn_count wc \<and>
             sin_addr (sin_oth (conn_at (unat conn_id) w')) = sin_addr (recv_from os) \<and>
             sin_port (sin_oth (conn_at (unat conn_id) w')) = sin_port (recv_from os) \<and>
             state (conn_at (unat conn_id) w') = NETWORK_CONN_STATE_CONNECTED)) \<and>
         (state (conn_at (unat conn_id) w) = NETWORK_CONN_STATE_CONNECTED \<longrightarrow>
          (\<exists>w'. network_udp_receive conn_id len os w = Inr (ucast (recv_ret os), w') \<and>
             g_conns w' = g_conns w \<and> g_conn_count w' = g_conn_count w))"
  using assms
  by (simp add: network_udp_receive_def network_udp_connect_def get_network_conn_def Let_def)

theorem udp_receive_lazy_peer_binding_witness:
  "(\<exists>w' wc. network_udp_receive 0 1500 (read_ok 4 peer1 [1, 2, 3, 4])
               (world_with (conn0 True NETWORK_CONN_STATE_DISCONNECTED zero_sockaddr))
             = Inr (4, w') \<and>
           network_udp_connect 0 167772161 54921
               (world_with (conn0 True NETWORK_CONN_STATE_DISCONNECTED zero_sockaddr))
             = Inr (0, wc) \<and>
           g_conns w' = g_conns wc \<and>
           sin_addr (sin_oth (conn_at 0 w')) = 167772161 \<and>
           sin_port (sin_oth (conn_at 0 w')) = 54921 \<and>
           state (conn_at 0 w') = NETWORK_CONN_STATE_CONNECTED) \<and>
   (\<exists>w'. network_udp_receive 0 1500 (read_ok 4 peer1 [1, 2, 3, 4])
               (world_with (conn0 False NETWORK_CONN_STATE_CONNECTED peer1))
             = Inr (4, w') \<and>
           g_conns w' = g_conns (world_with (conn0 False NETWORK_CONN_STATE_CONNECTED peer1)))"
proof -
  have v: "unat (0 :: c_int) < MAX_NETWORK_CONNECTIONS"
    by (simp add: MAX_NETWORK_CONNECTIONS_def)
  have ok: "0 \<le> sint (recv_ret (read_ok 4 peer1 [1, 2, 3, 4]))"
    by (simp add: read_ok_def)
  have a: "ucast (recv_ret (read_ok 4 peer1 [1, 2, 3, 4])) = (4 :: c_int)"
    by (simp add: read_ok_def)
  have b: "sin_addr (recv_from (read_ok 4 peer1 [1, 2, 3, 4])) = 167772161"
    "sin_port (recv_from (read_ok 4 peer1 [1, 2, 3, 4])) = 54921"
    by (simp_all add: read_ok_def peer1_def)
  from udp_receive_lazy_peer_binding [OF v world_with_simps(1) ok,
      of "conn0 True NETWORK_CONN_STATE_DISCONNECTED zero_sockaddr" 1500]
  have 1: "\<exists>w' wc. network_udp_receive 0 1500 (read_ok 4 peer1 [1, 2, 3, 4])
               (world_with (conn0 True NETWORK_CONN_STATE_DISCONNECTED zero_sockaddr))
             = Inr (4, w') \<and>
           network_udp_connect 0 167772161 54921
               (world_with (conn0 True NETWORK_CONN_STATE_DISCONNECTED zero_sockaddr))
             = Inr (0, wc) \<and>
           g_conns w' = g_conns wc \<and>
           sin_addr (sin_oth (conn_at 0 w')) = 167772161 \<and>
           sin_port (sin_oth (conn_at 0 w')) = 54921 \<and>
           state (conn_at 0 w') = NETWORK_CONN_STATE_CONNECTED"
    unfolding a b by simp blast
  from udp_receive_lazy_peer_binding [OF v world_with_simps(1) ok,
      of "conn0 False NETWORK_CONN_STATE_CONNECTED peer1" 1500]
  have 2: "\<exists>w'. network_udp_receive 0 1500 (read_ok 4 peer1 [1, 2, 3, 4])
               (world_with (conn0 False NETWORK_CONN_STATE_CONNECTED peer1))
             = Inr (4, w') \<and>
           g_conns w' = g_conns (world_with (conn0 False NETWORK_CONN_STATE_CONNECTED peer1))"
    unfolding a by simp blast
  from 1 2 show ?thesis by (rule conjI)
qed

text \<open>
  C2. The init functions do not compare the counter with the capacity. From program start,
  thirty-two init calls return; the thirty-third takes the counter value 32 and reads and
  writes \<^verbatim>\<open>g_conns[32]\<close>, one record past the end of the table. The call is not rejected
  (it does not return -1) and has no record of the table to confine itself to: it is an
  out-of-bounds access, for both transports.
\<close>

theorem capacity_overflow:
  "\<not> isl (run (replicate 32 (Udp_init_conn 0 False (os_ok 3))) startup) \<and>
   run (replicate 33 (Udp_init_conn 0 False (os_ok 3))) startup = Inl OutOfBounds \<and>
   \<not> isl (run (replicate 32 (Tcp_init_conn 0 False (os_ok 3))) startup) \<and>
   run (replicate 33 (Tcp_init_conn 0 False (os_ok 3))) startup = Inl OutOfBounds"
  by code_simp

text \<open>
  C3. Every operation that takes a handle (connect, send, receive, disconnect and free of
  both transports) ends in a fault, and so neither returns to its caller nor touches the
  table or the system, when the handle is outside 0..31 (the NULL pointer returned by
  \<^verbatim>\<open>get_network_conn\<close> is dereferenced) or when the record is not in the state the
  operation requires (the \<^verbatim>\<open>assert\<close> fails and aborts).
\<close>

theorem contract_violation_aborts:
  assumes "call_handle c = Some h"
  shows "(\<not> (0 \<le> sint h \<and> sint h \<le> 31) \<longrightarrow> exec c w = Inl NullDeref) \<and>
         (0 \<le> sint h \<and> sint h \<le> 31 \<and> \<not> required_state c (conn_at (unat h) w) \<longrightarrow>
            exec c w = Inl AssertFailed)"
proof (cases "unat h < MAX_NETWORK_CONNECTIONS")
  case True
  then have "get_network_conn h = Some (unat h)"
    by (simp add: get_network_conn_def)
  moreover from True have "0 \<le> sint h \<and> sint h \<le> 31"
    by (simp add: handle_range)
  ultimately show ?thesis
    using assms by (cases c) (auto simp: op_defs Let_def state_not_uninit split: if_splits)
next
  case False
  then have "get_network_conn h = None"
    by (simp add: get_network_conn_def)
  moreover from False have "\<not> (0 \<le> sint h \<and> sint h \<le> 31)"
    by (simp add: handle_range)
  ultimately show ?thesis
    using assms by (cases c) (auto simp: op_defs)
qed

theorem contract_violation_aborts_witness:
  "exec (Udp_send 32 [1, 2] 2 2) (world_with (conn0 False NETWORK_CONN_STATE_CONNECTED peer1))
     = Inl NullDeref \<and>
   exec (Tcp_free (- 1)) (world_with (conn0 False NETWORK_CONN_STATE_DISCONNECTED zero_sockaddr))
     = Inl NullDeref \<and>
   exec (Udp_send 0 [1, 2] 2 2) (world_with (conn0 False NETWORK_CONN_STATE_DISCONNECTED peer1))
     = Inl AssertFailed \<and>
   exec (Tcp_free 0) (world_with (conn0 False NETWORK_CONN_STATE_CONNECTED peer1))
     = Inl AssertFailed \<and>
   exec (Udp_receive 0 1500 (read_ok 4 peer1 [1, 2, 3, 4]))
       (world_with (conn0 False NETWORK_CONN_STATE_DISCONNECTED zero_sockaddr))
     = Inl AssertFailed"
  using
    contract_violation_aborts [of "Udp_send 32 [1, 2] 2 2" 32
      "world_with (conn0 False NETWORK_CONN_STATE_CONNECTED peer1)"]
    contract_violation_aborts [of "Tcp_free (- 1)" "- 1"
      "world_with (conn0 False NETWORK_CONN_STATE_DISCONNECTED zero_sockaddr)"]
    contract_violation_aborts [of "Udp_send 0 [1, 2] 2 2" 0
      "world_with (conn0 False NETWORK_CONN_STATE_DISCONNECTED peer1)"]
    contract_violation_aborts [of "Tcp_free 0" 0
      "world_with (conn0 False NETWORK_CONN_STATE_CONNECTED peer1)"]
    contract_violation_aborts [of "Udp_receive 0 1500 (read_ok 4 peer1 [1, 2, 3, 4])" 0
      "world_with (conn0 False NETWORK_CONN_STATE_DISCONNECTED zero_sockaddr)"]
  by simp

text \<open>
  C4, as stated, fails: the stored peer endpoint is not cleared when a record is put or
  left in Disconnected state. After init, connect and disconnect of the datagram transport
  the record is Disconnected and \<^verbatim>\<open>sin_oth\<close> still holds the peer; after a stream connect
  whose \<^verbatim>\<open>connect\<close> call fails the record is still Disconnected and \<^verbatim>\<open>sin_oth\<close> holds
  the peer that was tried.
\<close>

theorem stale_peer_after_disconnect:
  "map_sum id fst (run [Udp_init_conn 5000 False (os_ok 3), Udp_connect 0 167772161 54921,
                        Udp_disconnect 0] startup) = Inr [0, 0, 0] \<and>
   state (conn_at 0 (final_world (run [Udp_init_conn 5000 False (os_ok 3),
       Udp_connect 0 167772161 54921, Udp_disconnect 0] startup))) =
     NETWORK_CONN_STATE_DISCONNECTED \<and>
   sin_oth (conn_at 0 (final_world (run [Udp_init_conn 5000 False (os_ok 3),
       Udp_connect 0 167772161 54921, Udp_disconnect 0] startup))) = peer1 \<and>
   peer1 \<noteq> zero_sockaddr \<and>
   map_sum id fst (run [Tcp_init_conn 5000 False (os_ok 3),
                        Tcp_connect 0 167772161 54921 (- 1)] startup) = Inr [0, - 1] \<and>
   state (conn_at 0 (final_world (run [Tcp_init_conn 5000 False (os_ok 3),
       Tcp_connect 0 167772161 54921 (- 1)] startup))) = NETWORK_CONN_STATE_DISCONNECTED \<and>
   sin_oth (conn_at 0 (final_world (run [Tcp_init_conn 5000 False (os_ok 3),
       Tcp_connect 0 167772161 54921 (- 1)] startup))) = peer1"
  by code_simp

text \<open>
  C4, amended. The peer endpoint stored in a record that is not Connected is never read:
  two tables that differ only in the \<^verbatim>\<open>sin_oth\<close> and \<^verbatim>\<open>slen\<close> fields of records
  that are not Connected give, under every sequence of calls, the same fault or else the
  same return values, the same system calls and log lines, the same counter, and tables
  that again differ only in such fields. So the stored endpoint has an effect only while
  the record is Connected.
\<close>

theorem stale_peer_never_read:
  assumes tbl: "table_ok w" and pv: "peer_view w = peer_view v"
  shows "map_sum id (map_prod id peer_view) (run cs w) =
         map_sum id (map_prod id peer_view) (run cs v)"
  using assms
proof (induction cs arbitrary: w v)
  case Nil
  then show ?case by simp
next
  case (Cons c cs)
  from exec_peer_view [OF Cons.prems, of c] show ?case
  proof (cases rule: same_view_cases)
    case (1 e)
    then show ?thesis by simp
  next
    case (2 rc w1 v1)
    from exec_step [OF 2(1) Cons.prems(1)] have "table_ok w1"
      by simp
    from Cons.IH [OF this 2(3)] show ?thesis
    proof (cases rule: same_view_cases)
      case (1 e)
      with 2 show ?thesis by simp
    next
      case (2 rcs w2 v2)
      with \<open>exec c w = Inr (rc, w1)\<close> \<open>exec c v = Inr (rc, v1)\<close> show ?thesis by simp
    qed
  qed
qed

theorem stale_peer_never_read_witness:
  "map_sum id fst
     (run [Udp_free 0, Udp_init_conn 6000 True (os_ok 4),
           Udp_receive 1 1500 (read_ok 4 peer1 [1, 2, 3, 4]), Udp_send 1 [5, 6] 2 2]
        (world_with (conn0 False NETWORK_CONN_STATE_DISCONNECTED zero_sockaddr))) =
     Inr [0, 1, 4, 2] \<and>
   map_sum id (map_prod id peer_view)
     (run [Udp_free 0, Udp_init_conn 6000 True (os_ok 4),
           Udp_receive 1 1500 (read_ok 4 peer1 [1, 2, 3, 4]), Udp_send 1 [5, 6] 2 2]
        (world_with (conn0 False NETWORK_CONN_STATE_DISCONNECTED zero_sockaddr))) =
   map_sum id (map_prod id peer_view)
     (run [Udp_free 0, Udp_init_conn 6000 True (os_ok 4),
           Udp_receive 1 1500 (read_ok 4 peer1 [1, 2, 3, 4]), Udp_send 1 [5, 6] 2 2]
        (world_with (conn0 False NETWORK_CONN_STATE_DISCONNECTED peer1)))"
proof -
  have "peer_view (world_with (conn0 False NETWORK_CONN_STATE_DISCONNECTED zero_sockaddr)) =
        peer_view (world_with (conn0 False NETWORK_CONN_STATE_DISCONNECTED peer1))"
    by code_simp
  with world_with_simps(1)
  have "map_sum id (map_prod id peer_view)
     (run [Udp_free 0, Udp_init_conn 6000 True (os_ok 4),
           Udp_receive 1 1500 (read_ok 4 peer1 [1, 2, 3, 4]), Udp_send 1 [5, 6] 2 2]
        (world_with (conn0 False NETWORK_CONN_STATE_DISCONNECTED zero_sockaddr))) =
   map_sum id (map_prod id peer_view)
     (run [Udp_free 0, Udp_init_conn 6000 True (os_ok 4),
           Udp_receive 1 1500 (read_ok 4 peer1 [1, 2, 3, 4]), Udp_send 1 [5, 6] 2 2]
        (world_with (conn0 False NETWORK_CONN_STATE_DISCONNECTED peer1)))"
    by (rule stale_peer_never_read)
  moreover have "map_sum id fst
     (run [Udp_free 0, Udp_init_conn 6000 True (os_ok 4),
           Udp_receive 1 1500 (read_ok 4 peer1 [1, 2, 3, 4]), Udp_send 1 [5, 6] 2 2]
        (world_with (conn0 False NETWORK_CONN_STATE_DISCONNECTED zero_sockaddr))) =
     Inr [0, 1, 4, 2]"
    by code_simp
  ultimately show ?thesis
    by (rule conjI [rotated])
qed

text \<open>
  C5. An init call of either transport that reaches a free slot of the table, gets a
  descriptor from \<^verbatim>\<open>socket\<close>, is given a port above 0 and whose \<^verbatim>\<open>bind\<close> fails
  (returns -1) returns -1; the last system call it makes is \<^verbatim>\<open>close\<close> on the descriptor
  it created; its record stays Uninitialized and every other record is as before. When the
  table it runs on was left by an earlier successful init, that first record is unchanged
  and still Disconnected.
\<close>

theorem init_bind_failure:
  assumes tbl: "table_ok w"
    and slot: "unat (g_conn_count w) < MAX_NETWORK_CONNECTIONS"
    and unused: "state (conn_at (unat (g_conn_count w)) w) = NETWORK_CONN_STATE_UNITIALIZED"
    and sock: "socket_ret os \<noteq> - 1"
    and port: "0 < port"
    and bind: "bind_ret os = - 1"
  shows "\<exists>w' evs. network_init_conn t port srv os w = Inr (- 1, w') \<and>
     os_trace w' = os_trace w @ evs @ [Close (socket_ret os)] \<and>
     state (conn_at (unat (g_conn_count w)) w') = NETWORK_CONN_STATE_UNITIALIZED \<and>
     (\<forall>j. j \<noteq> unat (g_conn_count w) \<longrightarrow> conn_at j w' = conn_at j w) \<and>
     (\<forall>t0 port0 srv0 os0 w0 h0.
        table_ok w0 \<and> network_init_conn t0 port0 srv0 os0 w0 = Inr (h0, w) \<and> h0 \<noteq> - 1 \<longrightarrow>
        conn_at (unat h0) w' = conn_at (unat h0) w \<and>
        state (conn_at (unat h0) w') = NETWORK_CONN_STATE_DISCONNECTED)"
proof -
  from init_conn_bind_fails [OF assms] obtain w' evs where
    ret: "network_init_conn t port srv os w = Inr (- 1, w')"
    and tr: "os_trace w' = os_trace w @ evs @ [Close (socket_ret os)]"
    by blast
  note st = init_conn_step [OF ret tbl]
  have "conn_at (unat h0) w' = conn_at (unat h0) w \<and>
        state (conn_at (unat h0) w') = NETWORK_CONN_STATE_DISCONNECTED"
    if first: "network_init_conn t0 port0 srv0 os0 w0 = Inr (h0, w)" and tbl0: "table_ok w0"
      and h0: "h0 \<noteq> - 1" for t0 port0 srv0 os0 w0 h0
  proof -
    note st0 = init_conn_step [OF first tbl0]
    from st0 h0 have eq: "h0 = g_conn_count w0"
      and d: "state (conn_at (unat h0) w) = NETWORK_CONN_STATE_DISCONNECTED"
      by simp_all
    from st0 eq have "unat (g_conn_count w) = Suc (unat h0)"
      by (simp add: unat_count_Suc)
    then have "unat h0 \<noteq> unat (g_conn_count w)"
      by simp
    with st have "conn_at (unat h0) w' = conn_at (unat h0) w"
      by simp
    with d show ?thesis
      by simp
  qed
  with ret tr st show ?thesis
    by blast
qed

theorem init_bind_failure_witness:
  "\<exists>w' evs. network_init_conn Stream 5000 False (os_bind_fails 4) datagram_world = Inr (- 1, w') \<and>
     os_trace w' = os_trace datagram_world @ evs @ [Close 4] \<and>
     state (conn_at 1 w') = NETWORK_CONN_STATE_UNITIALIZED \<and>
     conn_at 0 w' = conn_at 0 datagram_world \<and>
     state (conn_at 0 w') = NETWORK_CONN_STATE_DISCONNECTED"
proof -
  have first: "network_init_conn Datagram 5000 False (os_ok 3) startup = Inr (0, datagram_world)"
    by code_simp
  have tbl: "table_ok datagram_world"
    by (simp add: datagram_world_def)
  have cnt: "unat (g_conn_count datagram_world) = 1"
    by (simp add: datagram_world_def)
  have slot: "unat (g_conn_count datagram_world) < MAX_NETWORK_CONNECTIONS"
    by (simp add: cnt MAX_NETWORK_CONNECTIONS_def)
  have unused: "state (conn_at (unat (g_conn_count datagram_world)) datagram_world) =
      NETWORK_CONN_STATE_UNITIALIZED"
    unfolding cnt by code_simp
  have sock: "socket_ret (os_bind_fails 4) \<noteq> - 1" and bind: "bind_ret (os_bind_fails 4) = - 1"
    by (simp_all add: os_bind_fails_def os_ok_def)
  have port: "0 < (5000 :: in_port_t)"
    by simp
  from init_bind_failure [OF tbl slot unused sock port bind, of Stream False]
  obtain w' evs where
    a: "network_init_conn Stream 5000 False (os_bind_fails 4) datagram_world = Inr (- 1, w')"
    and b: "os_trace w' = os_trace datagram_world @ evs @ [Close (socket_ret (os_bind_fails 4))]"
    and c: "state (conn_at (unat (g_conn_count datagram_world)) w') =
              NETWORK_CONN_STATE_UNITIALIZED"
    and d: "\<forall>t0 port0 srv0 os0 w0 h0.
        table_ok w0 \<and> network_init_conn t0 port0 srv0 os0 w0 = Inr (h0, datagram_world) \<and>
        h0 \<noteq> - 1 \<longrightarrow>
        conn_at (unat h0) w' = conn_at (unat h0) datagram_world \<and>
        state (conn_at (unat h0) w') = NETWORK_CONN_STATE_DISCONNECTED"
    by blast
  from d first have e: "conn_at 0 w' = conn_at 0 datagram_world \<and>
        state (conn_at 0 w') = NETWORK_CONN_STATE_DISCONNECTED"
    using startup_table_ok by fastforce
  have s: "socket_ret (os_bind_fails 4) = 4"
    by (simp add: os_bind_fails_def os_ok_def)
  from a b c e show ?thesis
    unfolding cnt s by blast
qed

text \<open>
  C6. A receive of either transport whose read fails (returns a negative count), on a valid
  handle in a state the receive accepts, returns -1 and changes nothing but the trace: the
  table and the counter are as before, and the trace gains the read itself and, unless
  \<^verbatim>\<open>errno\<close> is \<^verbatim>\<open>EAGAIN\<close> or \<^verbatim>\<open>EWOULDBLOCK\<close>, one \<^verbatim>\<open>perror\<close> line.
\<close>

theorem receive_failure_silent_on_timeout:
  assumes "unat h < MAX_NETWORK_CONNECTIONS"
    and "required_state (case t of Datagram \<Rightarrow> Udp_receive h len os | Stream \<Rightarrow> Tcp_receive h len os)
           (conn_at (unat h) w)"
    and "sint (recv_ret os) < 0"
  shows "network_receive t h len os w =
           Inr (- 1, w\<lparr>os_trace := os_trace w @
                  receive_event t (fd (conn_at (unat h) w)) len #
                  (if recv_errno os = EAGAIN \<or> recv_errno os = EWOULDBLOCK then []
                   else [Perror ''recvfrom''])\<rparr>)"
  using assms by (cases t) (auto simp: op_defs model_defs Let_def split: if_splits)

theorem receive_failure_silent_on_timeout_witness:
  "network_receive Datagram 0 1500 (read_fails EAGAIN)
       (world_with (conn0 True NETWORK_CONN_STATE_DISCONNECTED zero_sockaddr)) =
     Inr (- 1, (world_with (conn0 True NETWORK_CONN_STATE_DISCONNECTED zero_sockaddr))
                 \<lparr>os_trace := [Recvfrom 3 1500]\<rparr>) \<and>
   network_receive Stream 0 1500 (read_fails 104)
       (world_with (conn0 False NETWORK_CONN_STATE_CONNECTED peer1)) =
     Inr (- 1, (world_with (conn0 False NETWORK_CONN_STATE_CONNECTED peer1))
                 \<lparr>os_trace := [Recv 3 1500, Perror ''recvfrom'']\<rparr>)"
  using
    receive_failure_silent_on_timeout [where h = 0 and t = Datagram and len = 1500
      and os = "read_fails EAGAIN" and w = "world_with (conn0 True NETWORK_CONN_STATE_DISCONNECTED zero_sockaddr)"]
    receive_failure_silent_on_timeout [where h = 0 and t = Stream and len = 1500
      and os = "read_fails 104" and w = "world_with (conn0 False NETWORK_CONN_STATE_CONNECTED peer1)"]
  by (simp add: MAX_NETWORK_CONNECTIONS_def read_fails_def EAGAIN_def EWOULDBLOCK_def)

text \<open>
  C7. On a valid handle, disconnect of either transport aborts unless the record is
  Connected. On a Connected record it returns 0 and sets the state to Disconnected, changing
  no other field of any record; the datagram disconnect makes no system call (the trace is
  unchanged) and the stream disconnect closes the record's descriptor.
\<close>

theorem disconnect_effect:
  assumes "unat h < MAX_NETWORK_CONNECTIONS"
  shows "(state (conn_at (unat h) w) \<noteq> NETWORK_CONN_STATE_CONNECTED \<longrightarrow>
            network_udp_disconnect h w = Inl AssertFailed \<and>
            network_tcp_disconnect h w = Inl AssertFailed) \<and>
         (state (conn_at (unat h) w) = NETWORK_CONN_STATE_CONNECTED \<longrightarrow>
            network_udp_disconnect h w =
              Inr (0, w\<lparr>g_conns := (g_conns w)[unat h :=
                     (g_conns w ! unat h)\<lparr>state := NETWORK_CONN_STATE_DISCONNECTED\<rparr>]\<rparr>) \<and>
            network_tcp_disconnect h w =
              Inr (0, w\<lparr>g_conns := (g_conns w)[unat h :=
                     (g_conns w ! unat h)\<lparr>state := NETWORK_CONN_STATE_DISCONNECTED\<rparr>],
                   os_trace := os_trace w @ [Close (fd (g_conns w ! unat h))]\<rparr>))"
  using assms by (simp add: op_defs model_defs)

theorem disconnect_effect_witness:
  "network_udp_disconnect 0 (world_with (conn0 False NETWORK_CONN_STATE_DISCONNECTED peer1))
     = Inl AssertFailed \<and>
   network_tcp_disconnect 0 (world_with (conn0 False NETWORK_CONN_STATE_DISCONNECTED peer1))
     = Inl AssertFailed \<and>
   network_udp_disconnect 0 (world_with (conn0 False NETWORK_CONN_STATE_CONNECTED peer1))
     = Inr (0, world_with (conn0 False NETWORK_CONN_STATE_DISCONNECTED peer1)) \<and>
   network_tcp_disconnect 0 (world_with (conn0 False NETWORK_CONN_STATE_CONNECTED peer1))
     = Inr (0, (world_with (conn0 False NETWORK_CONN_STATE_DISCONNECTED peer1))
                 \<lparr>os_trace := [Close 3]\<rparr>)"
  using
    disconnect_effect [of 0 "world_with (conn0 False NETWORK_CONN_STATE_DISCONNECTED peer1)"]
    disconnect_effect [of 0 "world_with (conn0 False NETWORK_CONN_STATE_CONNECTED peer1)"]
  by (simp add: MAX_NETWORK_CONNECTIONS_def world_with_def conn0_def conn_at_def peer1_def
      zero_sockaddr_def AF_INET_def)

text \<open>
  C8. \<^verbatim>\<open>network_tcp_init_conn\<close> does not look at its server argument: for every port,
  every outcome of the system calls and every table, the call with the flag set and the
  call with the flag clear give the same result, fault or return value, and the same world
  (the record's server field is set to false by both).
\<close>

theorem tcp_init_ignores_server_flag:
  "network_tcp_init_conn port True os w = network_tcp_init_conn port False os w"
  by (simp add: network_tcp_init_conn_def)

text \<open>
  C9. For a handle returned by a successful init of either transport, and in whatever world
  an operation of either family is then called with that handle, the operation returns
  (passes its checks) exactly when the record is in the state the operation requires: the
  record has no field for the transport and nothing else is checked.
\<close>

theorem transport_not_checked:
  assumes tbl: "table_ok w0"
    and init: "network_init_conn t port srv os w0 = Inr (h, w1)"
    and ok: "h \<noteq> - 1"
    and c: "call_handle c = Some h"
  shows "(\<exists>rc w'. exec c w = Inr (rc, w')) \<longleftrightarrow> required_state c (conn_at (unat h) w)"
proof -
  from init_conn_step [OF init tbl] ok have "unat h < MAX_NETWORK_CONNECTIONS"
    by simp
  with c show ?thesis
    by (rule exec_returns_iff)
qed

theorem transport_not_checked_witness:
  "network_init_conn Stream 5000 True (os_ok 3) startup = Inr (0, stream_world) \<and>
   run [Tcp_connect 0 167772161 54921 0] stream_world =
     Inr ([0], final_world (run [Tcp_connect 0 167772161 54921 0] stream_world)) \<and>
   (\<exists>rc w'. exec (Udp_send 0 [5, 6] 2 2)
               (final_world (run [Tcp_connect 0 167772161 54921 0] stream_world)) = Inr (rc, w')) \<and>
   network_init_conn Datagram 5000 False (os_ok 3) startup = Inr (0, datagram_world) \<and>
   (\<exists>rc w'. exec (Tcp_connect 0 167772161 54921 0) datagram_world = Inr (rc, w'))"
proof -
  have i: "network_init_conn Stream 5000 True (os_ok 3) startup = Inr (0, stream_world)"
    by code_simp
  have r: "run [Tcp_connect 0 167772161 54921 0] stream_world =
     Inr ([0], final_world (run [Tcp_connect 0 167772161 54921 0] stream_world))"
    by code_simp
  have q: "required_state (Udp_send 0 [5, 6] 2 2)
     (conn_at (unat (0 :: c_int))
        (final_world (run [Tcp_connect 0 167772161 54921 0] stream_world)))"
    by code_simp
  have j: "network_init_conn Datagram 5000 False (os_ok 3) startup = Inr (0, datagram_world)"
    by code_simp
  have p: "required_state (Tcp_connect 0 167772161 54921 0)
     (conn_at (unat (0 :: c_int)) datagram_world)"
    by code_simp
  have z: "(0 :: c_int) \<noteq> - 1"
    by simp
  from transport_not_checked [OF startup_table_ok i z, of "Udp_send 0 [5, 6] 2 2"
      "final_world (run [Tcp_connect 0 167772161 54921 0] stream_world)"] q
  have 1: "\<exists>rc w'. exec (Udp_send 0 [5, 6] 2 2)
               (final_world (run [Tcp_connect 0 167772161 54921 0] stream_world)) = Inr (rc, w')"
    by simp
  from transport_not_checked [OF startup_table_ok j z, of "Tcp_connect 0 167772161 54921 0"
      datagram_world] p
  have 2: "\<exists>rc w'. exec (Tcp_connect 0 167772161 54921 0) datagram_world = Inr (rc, w')"
    by simp
  from i r 1 j 2 show ?thesis
    by simp
qed

text \<open>
  C10. Every init call of either transport that finds its slot of the table unused
  returns, with the handle or with -1, and leaves the counter one higher; it returns -1
  exactly when \<^verbatim>\<open>socket\<close> fails or the port is above 0 and \<^verbatim>\<open>bind\<close> fails. After a
  return of -1 the record is Uninitialized (after a success it is Disconnected and the
  handle is the old counter value). No later call gives the number back: after any run that
  follows, the counter is the old value plus one plus the number of later init calls, a
  record left Uninitialized by the failed call is still Uninitialized, every handle a later
  init returns is the number its position gives it and lies above the consumed one, and the
  later inits that return a handle the operations accept number at most 31 minus the old
  counter value: one less than before the call.
\<close>

theorem init_consumes_handle:
  assumes tbl: "table_ok w"
    and slot: "unat (g_conn_count w) < MAX_NETWORK_CONNECTIONS"
    and unused: "state (conn_at (unat (g_conn_count w)) w) = NETWORK_CONN_STATE_UNITIALIZED"
  shows "\<exists>rc w1. network_init_conn t port srv os w = Inr (rc, w1) \<and>
     g_conn_count w1 = g_conn_count w + 1 \<and>
     (rc = - 1 \<longleftrightarrow> socket_ret os = - 1 \<or> (0 < port \<and> bind_failed t os)) \<and>
     (if rc = - 1
      then state (conn_at (unat (g_conn_count w)) w1) = NETWORK_CONN_STATE_UNITIALIZED
      else rc = g_conn_count w \<and>
           state (conn_at (unat (g_conn_count w)) w1) = NETWORK_CONN_STATE_DISCONNECTED) \<and>
     (\<forall>cs rcs w'. run cs w1 = Inr (rcs, w') \<longrightarrow>
        g_conn_count w' = g_conn_count w + 1 + of_nat (length (filter is_init cs)) \<and>
        (rc = - 1 \<longrightarrow>
           state (conn_at (unat (g_conn_count w)) w') = NETWORK_CONN_STATE_UNITIALIZED) \<and>
        (\<forall>k < length cs. is_init (cs ! k) \<and> rcs ! k \<noteq> - 1 \<longrightarrow>
           rcs ! k = g_conn_count w + 1 + of_nat (length (filter is_init (take k cs))) \<and>
           unat (g_conn_count w) < unat (rcs ! k)) \<and>
        length (filter (\<lambda>(c, r). is_init c \<and> r \<noteq> - 1 \<and> get_network_conn r \<noteq> None)
                  (zip cs rcs)) + 1 + unat (g_conn_count w) \<le> MAX_NETWORK_CONNECTIONS)"
proof -
  let ?i = "unat (g_conn_count w)"
  from init_conn_returns [OF assms, of t port srv os] obtain rc w1 where
    ret: "network_init_conn t port srv os w = Inr (rc, w1)"
    and fail: "rc = - 1 \<longleftrightarrow> socket_ret os = - 1 \<or> (0 < port \<and> bind_failed t os)"
    by blast
  note st = init_conn_step [OF ret tbl]
  from st have cnt1: "unat (g_conn_count w1) = Suc ?i"
    by (simp add: unat_count_Suc)
  with st have cap1: "unat (g_conn_count w1) \<le> MAX_NETWORK_CONNECTIONS"
    by simp
  from st have tbl1: "table_ok w1" and wcnt1: "g_conn_count w1 = g_conn_count w + 1"
    by simp_all
  have later: "g_conn_count w' = g_conn_count w + 1 + of_nat (length (filter is_init cs)) \<and>
        (rc = - 1 \<longrightarrow> state (conn_at ?i w') = NETWORK_CONN_STATE_UNITIALIZED) \<and>
        (\<forall>k < length cs. is_init (cs ! k) \<and> rcs ! k \<noteq> - 1 \<longrightarrow>
           rcs ! k = g_conn_count w + 1 + of_nat (length (filter is_init (take k cs))) \<and>
           ?i < unat (rcs ! k)) \<and>
        length (filter (\<lambda>(c, r). is_init c \<and> r \<noteq> - 1 \<and> get_network_conn r \<noteq> None)
                  (zip cs rcs)) + 1 + ?i \<le> MAX_NETWORK_CONNECTIONS"
    if run: "run cs w1 = Inr (rcs, w')" for cs rcs w'
  proof -
    note rs = run_steps [OF run tbl1 cap1]
    note rh = run_handles [OF run tbl1 cap1]
    from rs have "unat (g_conn_count w') = unat (g_conn_count w1) + length (filter is_init cs)"
      by simp
    then have "of_nat (unat (g_conn_count w')) =
        (of_nat (unat (g_conn_count w1) + length (filter is_init cs)) :: c_int)"
      by simp
    then have a: "g_conn_count w' = g_conn_count w + 1 + of_nat (length (filter is_init cs))"
      using wcnt1 by simp
    have b: "state (conn_at ?i w') = NETWORK_CONN_STATE_UNITIALIZED" if "rc = - 1"
    proof -
      from st that have "state (conn_at ?i w1) = NETWORK_CONN_STATE_UNITIALIZED"
        by simp
      moreover have "?i < unat (g_conn_count w1)"
        using cnt1 by simp
      ultimately show ?thesis
        using rs by simp
    qed
    have c: "\<forall>k < length cs. is_init (cs ! k) \<and> rcs ! k \<noteq> - 1 \<longrightarrow>
           rcs ! k = g_conn_count w + 1 + of_nat (length (filter is_init (take k cs))) \<and>
           ?i < unat (rcs ! k)"
      using rh cnt1 wcnt1 by (simp add: Suc_le_eq)
    have "length (filter (\<lambda>(c, r). is_init c \<and> r \<noteq> - 1 \<and> get_network_conn r \<noteq> None)
                  (zip cs rcs)) \<le> length (filter is_init cs)"
      by (rule count_successful_inits)
    with rs cnt1 have d: "length (filter (\<lambda>(c, r). is_init c \<and> r \<noteq> - 1 \<and>
        get_network_conn r \<noteq> None) (zip cs rcs)) + 1 + ?i \<le> MAX_NETWORK_CONNECTIONS"
      by simp
    from a b c d show ?thesis
      by blast
  qed
  from st have e: "if rc = - 1
      then state (conn_at ?i w1) = NETWORK_CONN_STATE_UNITIALIZED
      else rc = g_conn_count w \<and> state (conn_at ?i w1) = NETWORK_CONN_STATE_DISCONNECTED"
    by (cases "rc = - 1") simp_all
  from ret wcnt1 fail e later show ?thesis
    by blast
qed

theorem init_consumes_handle_witness:
  "(\<exists>w1. network_init_conn Datagram 5000 True (os_bind_fails 3) startup = Inr (- 1, w1) \<and>
      g_conn_count w1 = 1 \<and>
      state (conn_at 0 w1) = NETWORK_CONN_STATE_UNITIALIZED \<and>
      server (conn_at 0 w1) \<and> sin_port (sin_me (conn_at 0 w1)) = 5000 \<and>
      (\<exists>w'. run [Tcp_init_conn 6000 True (os_ok 4), Tcp_free 1] w1 = Inr ([1, 0], w') \<and>
         g_conn_count w' = 2 \<and>
         state (conn_at 0 w') = NETWORK_CONN_STATE_UNITIALIZED)) \<and>
   (\<exists>w1. network_init_conn Stream 5000 True os_socket_fails startup = Inr (- 1, w1) \<and>
      g_conn_count w1 = 1 \<and>
      state (conn_at 0 w1) = NETWORK_CONN_STATE_UNITIALIZED) \<and>
   (\<exists>w1. network_init_conn Stream 0 False (os_ok 3) startup = Inr (0, w1) \<and>
      g_conn_count w1 = 1 \<and>
      state (conn_at 0 w1) = NETWORK_CONN_STATE_DISCONNECTED)"
proof -
  have slot: "unat (g_conn_count startup) < MAX_NETWORK_CONNECTIONS"
    by (simp add: MAX_NETWORK_CONNECTIONS_def)
  have unused: "state (conn_at (unat (g_conn_count startup)) startup) =
      NETWORK_CONN_STATE_UNITIALIZED"
    by code_simp
  note inst = init_consumes_handle [OF startup_table_ok slot unused]
  have a: "\<exists>w1. network_init_conn Datagram 5000 True (os_bind_fails 3) startup = Inr (- 1, w1) \<and>
      g_conn_count w1 = 1 \<and>
      state (conn_at 0 w1) = NETWORK_CONN_STATE_UNITIALIZED \<and>
      server (conn_at 0 w1) \<and> sin_port (sin_me (conn_at 0 w1)) = 5000 \<and>
      (\<exists>w'. run [Tcp_init_conn 6000 True (os_ok 4), Tcp_free 1] w1 = Inr ([1, 0], w') \<and>
         g_conn_count w' = 2 \<and>
         state (conn_at 0 w') = NETWORK_CONN_STATE_UNITIALIZED)"
  proof -
    have i: "network_init_conn Datagram 5000 True (os_bind_fails 3) startup =
        Inr (- 1, failed_init_world)"
      by code_simp
    have r: "run [Tcp_init_conn 6000 True (os_ok 4), Tcp_free 1] failed_init_world =
        Inr ([1, 0], final_world (run [Tcp_init_conn 6000 True (os_ok 4), Tcp_free 1]
                                   failed_init_world))"
      by code_simp
    have f: "server (conn_at 0 failed_init_world) \<and>
        sin_port (sin_me (conn_at 0 failed_init_world)) = 5000"
      by code_simp
    from inst [of Datagram 5000 True "os_bind_fails 3"] i
    have cnt: "g_conn_count failed_init_world = g_conn_count startup + 1"
      and st: "state (conn_at (unat (g_conn_count startup)) failed_init_world) =
          NETWORK_CONN_STATE_UNITIALIZED"
      and later: "\<And>cs rcs w'. run cs failed_init_world = Inr (rcs, w') \<Longrightarrow>
        g_conn_count w' = g_conn_count startup + 1 + of_nat (length (filter is_init cs)) \<and>
        state (conn_at (unat (g_conn_count startup)) w') = NETWORK_CONN_STATE_UNITIALIZED"
      by auto
    from later [OF r] cnt st i r f show ?thesis
      by auto
  qed
  have b: "\<exists>w1. network_init_conn Stream 5000 True os_socket_fails startup = Inr (- 1, w1) \<and>
      g_conn_count w1 = 1 \<and>
      state (conn_at 0 w1) = NETWORK_CONN_STATE_UNITIALIZED"
    using inst [of Stream 5000 True os_socket_fails]
    by (auto simp: os_socket_fails_def os_ok_def)
  have c: "\<exists>w1. network_init_conn Stream 0 False (os_ok 3) startup = Inr (0, w1) \<and>
      g_conn_count w1 = 1 \<and>
      state (conn_at 0 w1) = NETWORK_CONN_STATE_DISCONNECTED"
    using inst [of Stream 0 False "os_ok 3"]
    by (auto simp: os_ok_def)
  from a b c show ?thesis
    by blast
qed

end
